theory Spec2Isabelle
  imports Main
begin

section \<open>The deck search worker: query compiler and request handler\<close>

text \<open>
  This theory embeds \<^verbatim>\<open>src/worker/src/handlers/search.js\<close>: the function
  \<^verbatim>\<open>buildSearchQuery\<close>, which turns the URL search parameters into a
  parameterised SQL statement, and \<^verbatim>\<open>handleSearchRequest\<close>, which resolves the
  pagination, compiles the data and the count statement and hands both to the database.

  Conventions of the embedding.
  \<^item> A JavaScript string is the list of its UTF-16 code units, each an integer from 0 to
    65535 (\<open>jsString\<close>); \<open>js\<close> turns an ASCII text of the source into such a list. White
    space is the full set that \<^verbatim>\<open>trim\<close> and \<^verbatim>\<open>parseInt\<close> strip (the ECMAScript
    productions WhiteSpace and LineTerminator).
  \<^item> A JavaScript number (\<open>jsnum\<close>) is \<^verbatim>\<open>NaN\<close>, an infinity, the negative zero or
    an integer that a double represents exactly; the code never makes a fraction.
    \<^verbatim>\<open>parseInt\<close> and the subtraction round to the nearest double, ties to even, and
    overflow to an infinity.
  \<^item> \<^verbatim>\<open>URLSearchParams\<close> is the ordered list of its name/value pairs.
  \<^item> \<^verbatim>\<open>Date.parse\<close> is a built-in whose result depends on the engine for every
    string that is not in the ISO format; it is a parameter \<open>dateParse\<close> of the model,
    which returns a time value in milliseconds or nothing (for \<^verbatim>\<open>NaN\<close>).
  \<^item> The database binding \<^verbatim>\<open>env.DECK_DB\<close> is a parameter \<open>batch\<close>: a transition of
    the database that takes the statements of one \<^verbatim>\<open>batch([...])\<close> call and the state
    of the database, and returns the outcome of the call and the next state. The handler
    takes the state of the database and returns it next to its response, so what it did
    to the database is what it applied \<open>batch\<close> to.
    \<^verbatim>\<open>prepare(sql).bind(...params)\<close> builds a statement object locally; the model
    keeps the pair of the text and the bound values.
  \<^item> The messages of the error responses are Chinese texts in the source; the datatype
    \<open>errorMessage\<close> has one constructor for each of them.
\<close>

subsection \<open>JavaScript strings\<close>

type_synonym jsString = "int list"

definition js :: "string \<Rightarrow> jsString" where
  "js s = map of_char s"

text \<open>White space and line terminators: TAB, LF, VT, FF, CR, SPACE, NBSP, U+1680,
  U+2000 to U+200A, U+2028, U+2029, U+202F, U+205F, U+3000 and U+FEFF.\<close>

definition isWhiteSpace :: "int \<Rightarrow> bool" where
  "isWhiteSpace u =
     (u = 0x0009 \<or> u = 0x000A \<or> u = 0x000B \<or> u = 0x000C \<or> u = 0x000D \<or> u = 0x0020
      \<or> u = 0x00A0 \<or> u = 0x1680 \<or> (0x2000 \<le> u \<and> u \<le> 0x200A) \<or> u = 0x2028
      \<or> u = 0x2029 \<or> u = 0x202F \<or> u = 0x205F \<or> u = 0x3000 \<or> u = 0xFEFF)"

definition isDigit :: "int \<Rightarrow> bool" where
  "isDigit u = (48 \<le> u \<and> u \<le> 57)"

definition isLetter :: "int \<Rightarrow> bool" where
  "isLetter u = ((65 \<le> u \<and> u \<le> 90) \<or> (97 \<le> u \<and> u \<le> 122))"

text \<open>\<^verbatim>\<open>String.prototype.trim\<close>.\<close>

definition trim :: "jsString \<Rightarrow> jsString" where
  "trim s = rev (dropWhile isWhiteSpace (rev (dropWhile isWhiteSpace s)))"

text \<open>\<^verbatim>\<open>s.split(',')\<close>: the pieces between the separators; the empty string gives one
  empty piece.\<close>

fun split :: "int \<Rightarrow> jsString \<Rightarrow> jsString list" where
  "split sep [] = [[]]"
| "split sep (c # cs) =
     (if c = sep then [] # split sep cs
      else (case split sep cs of [] \<Rightarrow> [[c]] | w # ws \<Rightarrow> (c # w) # ws))"

text \<open>\<^verbatim>\<open>Array.prototype.join\<close>.\<close>

fun joinWith :: "jsString \<Rightarrow> jsString list \<Rightarrow> jsString" where
  "joinWith sep [] = []"
| "joinWith sep [x] = x"
| "joinWith sep (x # y # ys) = x @ sep @ joinWith sep (y # ys)"

text \<open>The decimal text of an array index, as a template literal prints it.\<close>

fun showNat :: "nat \<Rightarrow> jsString" where
  "showNat n =
     (if n < 10 then [48 + int n] else showNat (n div 10) @ [48 + int (n mod 10)])"

declare showNat.simps [simp del]

subsection \<open>JavaScript numbers\<close>

text \<open>The values the code computes with. \<open>Num n\<close> is the double that is the integer
  \<open>n\<close>, and \<open>Num 0\<close> is the positive zero.\<close>

datatype jsnum = NaN | Num int | NegZero | PosInfinity | NegInfinity

text \<open>Rounding a positive integer to 53 significant bits, to the nearest and to even on
  a tie: \<open>shiftOf m\<close> is the number of bits to drop.\<close>

function shiftOf :: "int \<Rightarrow> nat" where
  "shiftOf m = (if m < 2 ^ 53 then 0 else Suc (shiftOf (m div 2)))"
  by pat_completeness auto
termination
  by (relation "measure nat") auto

declare shiftOf.simps [simp del]

definition roundMagnitude :: "int \<Rightarrow> int" where
  "roundMagnitude m =
     (let p = 2 ^ shiftOf m; q = m div p; r = m mod p
      in if p < 2 * r \<or> (2 * r = p \<and> odd q) then (q + 1) * p else q * p)"

text \<open>The Number value of a mathematical integer: the nearest double, an infinity from
  \<open>2 ^ 1024\<close> on.\<close>

definition toNumber :: "int \<Rightarrow> jsnum" where
  "toNumber v =
     (if v = 0 then Num 0
      else (let m = roundMagnitude \<bar>v\<bar>
            in if 2 ^ 1024 \<le> m then (if v < 0 then NegInfinity else PosInfinity)
               else Num (if v < 0 then - m else m)))"

text \<open>The number a run of decimal digits denotes.\<close>

definition decimalValue :: "jsString \<Rightarrow> int" where
  "decimalValue z = foldl (\<lambda>a c. 10 * a + (c - 48)) 0 z"

text \<open>\<^verbatim>\<open>parseInt(s, 10)\<close>: leading white space is skipped, one sign is read, then the
  longest run of decimal digits; no digit gives \<^verbatim>\<open>NaN\<close>, and what follows the digits
  is ignored. Zero keeps the sign; any other value is rounded to a double (ECMAScript
  lets an engine replace the digits after the twentieth by zeros; the engines round the
  whole run).\<close>

definition parseInt :: "jsString \<Rightarrow> jsnum" where
  "parseInt s =
     (let t = dropWhile isWhiteSpace s;
          negative = (case t of [] \<Rightarrow> False | c # _ \<Rightarrow> c = of_char CHR ''-'');
          u = (case t of [] \<Rightarrow> []
               | c # r \<Rightarrow> if c = of_char CHR ''-'' \<or> c = of_char CHR ''+'' then r else t);
          z = takeWhile isDigit u
      in if z = [] then NaN
         else if decimalValue z = 0 then (if negative then NegZero else Num 0)
         else toNumber (if negative then - decimalValue z else decimalValue z))"

text \<open>The comparisons \<^verbatim>\<open>x < y\<close> and \<^verbatim>\<open>x <= y\<close> of two numbers: false when one of
  them is \<^verbatim>\<open>NaN\<close>; the two zeros are equal.\<close>

fun rankOf :: "jsnum \<Rightarrow> int" where
  "rankOf NegInfinity = - 1"
| "rankOf PosInfinity = 1"
| "rankOf x = 0"

fun valueOf :: "jsnum \<Rightarrow> int" where
  "valueOf (Num n) = n"
| "valueOf x = 0"

definition numLess :: "jsnum \<Rightarrow> jsnum \<Rightarrow> bool" where
  "numLess x y =
     (x \<noteq> NaN \<and> y \<noteq> NaN \<and> (rankOf x < rankOf y \<or> (rankOf x = rankOf y \<and> valueOf x < valueOf y)))"

definition numLessEqual :: "jsnum \<Rightarrow> jsnum \<Rightarrow> bool" where
  "numLessEqual x y =
     (x \<noteq> NaN \<and> y \<noteq> NaN \<and> (rankOf x < rankOf y \<or> (rankOf x = rankOf y \<and> valueOf x \<le> valueOf y)))"

text \<open>The subtraction \<^verbatim>\<open>x - y\<close>: the exact difference of two finite values, rounded;
  a zero difference is positive unless it is \<^verbatim>\<open>-0 - 0\<close>.\<close>

fun numMinus :: "jsnum \<Rightarrow> jsnum \<Rightarrow> jsnum" where
  "numMinus NaN y = NaN"
| "numMinus x NaN = NaN"
| "numMinus PosInfinity PosInfinity = NaN"
| "numMinus NegInfinity NegInfinity = NaN"
| "numMinus PosInfinity y = PosInfinity"
| "numMinus NegInfinity y = NegInfinity"
| "numMinus x PosInfinity = NegInfinity"
| "numMinus x NegInfinity = PosInfinity"
| "numMinus x y =
     (if valueOf x - valueOf y = 0 then (if x = NegZero \<and> y = Num 0 then NegZero else Num 0)
      else toNumber (valueOf x - valueOf y))"

datatype jsval = JNull | JNumber jsnum | JString jsString

text \<open>The operand test of \<^verbatim>\<open>x || 0\<close>: null, NaN, the zeros and the empty string are
  falsy.\<close>

fun truthy :: "jsval \<Rightarrow> bool" where
  "truthy JNull = False"
| "truthy (JNumber NaN) = False"
| "truthy (JNumber NegZero) = False"
| "truthy (JNumber (Num n)) = (n \<noteq> 0)"
| "truthy (JNumber x) = True"
| "truthy (JString s) = (s \<noteq> [])"

subsection \<open>URL search parameters\<close>

type_synonym URLSearchParams = "(jsString \<times> jsString) list"

definition getAll :: "URLSearchParams \<Rightarrow> jsString \<Rightarrow> jsString list" where
  "getAll sp name = map snd (filter (\<lambda>kv. fst kv = name) sp)"

definition get :: "URLSearchParams \<Rightarrow> jsString \<Rightarrow> jsString option" where
  "get sp name = (case getAll sp name of [] \<Rightarrow> None | v # _ \<Rightarrow> Some v)"

definition has :: "URLSearchParams \<Rightarrow> jsString \<Rightarrow> bool" where
  "has sp name = (getAll sp name \<noteq> [])"

text \<open>The text that a template literal, \<^verbatim>\<open>parseInt\<close> and \<^verbatim>\<open>Date.parse\<close> make of
  the result of \<^verbatim>\<open>params.get(name)\<close>: the value, or \<^verbatim>\<open>null\<close> spelled out.\<close>

definition textOf :: "jsString option \<Rightarrow> jsString" where
  "textOf r = (case r of None \<Rightarrow> (js ''null'') | Some v \<Rightarrow> v)"

text \<open>\<^verbatim>\<open>params.get(name) || dflt\<close>: an absent and an empty value both give the default.\<close>

definition getOr :: "URLSearchParams \<Rightarrow> jsString \<Rightarrow> jsString \<Rightarrow> jsString" where
  "getOr sp name dflt = (case get sp name of None \<Rightarrow> dflt | Some v \<Rightarrow> if v = [] then dflt else v)"

subsection \<open>The query compiler \<^verbatim>\<open>buildSearchQuery\<close>\<close>

datatype binding = Str jsString | Number jsnum

text \<open>The three accumulators of the function: the \<^verbatim>\<open>Set\<close> of join fragments (in
  insertion order, without duplicates), the conditions and the bound values.\<close>

record qstate =
  joins :: "jsString list"
  conditions :: "jsString list"
  bindings :: "binding list"

definition emptyState :: qstate where
  "emptyState = \<lparr>joins = [], conditions = [], bindings = []\<rparr>"

text \<open>\<^verbatim>\<open>joins.add(j)\<close>.\<close>

definition addJoin :: "jsString \<Rightarrow> qstate \<Rightarrow> qstate" where
  "addJoin j st = (if j \<in> set (joins st) then st else st\<lparr>joins := joins st @ [j]\<rparr>)"

text \<open>\<^verbatim>\<open>conditions.push(c)\<close> and \<^verbatim>\<open>bindings.push(b)\<close>.\<close>

definition pushCondition :: "jsString \<Rightarrow> qstate \<Rightarrow> qstate" where
  "pushCondition c st = st\<lparr>conditions := conditions st @ [c]\<rparr>"

definition pushBinding :: "binding \<Rightarrow> qstate \<Rightarrow> qstate" where
  "pushBinding b st = st\<lparr>bindings := bindings st @ [b]\<rparr>"

text \<open>\<^verbatim>\<open>xs.forEach((x, i) => body)\<close> on a state: the body runs on every element with its
  index, in order.\<close>

fun forEachFrom :: "nat \<Rightarrow> ('a \<Rightarrow> nat \<Rightarrow> 's \<Rightarrow> 's) \<Rightarrow> 'a list \<Rightarrow> 's \<Rightarrow> 's" where
  "forEachFrom i body [] st = st"
| "forEachFrom i body (x # xs) st = forEachFrom (Suc i) body xs (body x i st)"

definition forEach :: "('a \<Rightarrow> nat \<Rightarrow> 's \<Rightarrow> 's) \<Rightarrow> 'a list \<Rightarrow> 's \<Rightarrow> 's" where
  "forEach body xs st = forEachFrom 0 body xs st"

text \<open>\<^verbatim>\<open>`%${value}%`\<close>.\<close>

definition likePattern :: "jsString \<Rightarrow> binding" where
  "likePattern v = Str (js ''%'' @ v @ js ''%'')"

text \<open>Lines 25 to 32: every value of the parameter gets the alias made of the letters of
  the parameter's name and its index.\<close>

definition aliasOf :: "jsString \<Rightarrow> nat \<Rightarrow> jsString" where
  "aliasOf paramName i = filter isLetter paramName @ showNat i"

definition processMultiParamFilter ::
  "URLSearchParams \<Rightarrow> jsString \<Rightarrow> (jsString \<Rightarrow> jsString \<Rightarrow> qstate \<Rightarrow> qstate) \<Rightarrow> qstate \<Rightarrow> qstate" where
  "processMultiParamFilter sp paramName joinLogic st =
     forEach (\<lambda>v i. joinLogic v (aliasOf paramName i)) (getAll sp paramName) st"

text \<open>Lines 35 to 38.\<close>

definition deckNameFilter :: "URLSearchParams \<Rightarrow> qstate \<Rightarrow> qstate" where
  "deckNameFilter sp st =
     (if has sp (js ''deck_name'')
      then (let st1 = pushCondition (js ''D.deck_name LIKE ?'') st
            in pushBinding (likePattern (textOf (get sp (js ''deck_name'')))) st1)
      else st)"

text \<open>Lines 41 to 59.\<close>

definition langsOf :: "URLSearchParams \<Rightarrow> jsString list" where
  "langsOf sp =
     filter (\<lambda>l. l \<in> set [js ''cn'', (js ''en''), js ''jp''])
       (map trim (split (of_char CHR '','') (getOr sp (js ''lang'') (js ''cn''))))"

definition cardBody :: "jsString list \<Rightarrow> jsString \<Rightarrow> nat \<Rightarrow> qstate \<Rightarrow> qstate" where
  "cardBody langs query i st =
     (let alias = js ''card'' @ showNat i;
          st1 = addJoin (js ''JOIN DeckCards AS DC_'' @ alias @ js '' ON D.deck_id = DC_'' @ alias
                          @ js ''.deck_id'') st;
          st2 = addJoin (js ''JOIN Cards AS C_'' @ alias @ js '' ON DC_'' @ alias @ js ''.card_id = C_''
                          @ alias @ js ''.id'') st1;
          langConditions = map (\<lambda>lang. js ''C_'' @ alias @ js ''.'' @ lang @ js ''_name LIKE ?'') langs;
          allConditions = joinWith (js '' OR '')
                            (langConditions @ [js ''C_'' @ alias @ js ''.card_text_desc LIKE ?'']);
          st3 = pushCondition (js ''('' @ allConditions @ js '')'') st2;
          st4 = fold (\<lambda>_. pushBinding (likePattern query)) langs st3
      in pushBinding (likePattern query) st4)"

definition cardFilter :: "URLSearchParams \<Rightarrow> qstate \<Rightarrow> qstate" where
  "cardFilter sp st =
     (let cardQueries = getAll sp (js ''card'')
      in if length cardQueries > 0
         then (let langs = langsOf sp
               in if length langs > 0 then forEach (cardBody langs) cardQueries st else st)
         else st)"

text \<open>Lines 64 to 97: the four categorical filters.\<close>

definition raceLogic :: "jsString \<Rightarrow> jsString \<Rightarrow> qstate \<Rightarrow> qstate" where
  "raceLogic raceName alias st =
     (let st1 = addJoin (js ''JOIN DeckCards AS DC_'' @ alias @ js '' ON D.deck_id = DC_'' @ alias
                          @ js ''.deck_id'') st;
          st2 = addJoin (js ''JOIN CardToRace AS CTR_'' @ alias @ js '' ON DC_'' @ alias
                          @ js ''.card_id = CTR_'' @ alias @ js ''.card_id'') st1;
          st3 = addJoin (js ''JOIN Races AS R_'' @ alias @ js '' ON CTR_'' @ alias
                          @ js ''.race_code = R_'' @ alias @ js ''.race_code'') st2;
          st4 = pushCondition (js ''R_'' @ alias @ js ''.race_name LIKE ?'') st3
      in pushBinding (likePattern raceName) st4)"

definition attributeLogic :: "jsString \<Rightarrow> jsString \<Rightarrow> qstate \<Rightarrow> qstate" where
  "attributeLogic attributeName alias st =
     (let st1 = addJoin (js ''JOIN DeckCards AS DC_'' @ alias @ js '' ON D.deck_id = DC_'' @ alias
                          @ js ''.deck_id'') st;
          st2 = addJoin (js ''JOIN CardToAttribute AS CTA_'' @ alias @ js '' ON DC_'' @ alias
                          @ js ''.card_id = CTA_'' @ alias @ js ''.card_id'') st1;
          st3 = addJoin (js ''JOIN Attributes AS A_'' @ alias @ js '' ON CTA_'' @ alias
                          @ js ''.attribute_code = A_'' @ alias @ js ''.attribute_code'') st2;
          st4 = pushCondition (js ''A_'' @ alias @ js ''.attribute_name LIKE ?'') st3
      in pushBinding (likePattern attributeName) st4)"

definition typeLogic :: "jsString \<Rightarrow> jsString \<Rightarrow> qstate \<Rightarrow> qstate" where
  "typeLogic typeName alias st =
     (let st1 = addJoin (js ''JOIN DeckCards AS DC_'' @ alias @ js '' ON D.deck_id = DC_'' @ alias
                          @ js ''.deck_id'') st;
          st2 = addJoin (js ''JOIN CardToType AS CTT_'' @ alias @ js '' ON DC_'' @ alias
                          @ js ''.card_id = CTT_'' @ alias @ js ''.card_id'') st1;
          st3 = addJoin (js ''JOIN CardTypes AS CT_'' @ alias @ js '' ON CTT_'' @ alias
                          @ js ''.type_code = CT_'' @ alias @ js ''.type_code'') st2;
          st4 = pushCondition (js ''CT_'' @ alias @ js ''.type_name LIKE ?'') st3
      in pushBinding (likePattern typeName) st4)"

definition setcodeLogic :: "jsString \<Rightarrow> jsString \<Rightarrow> qstate \<Rightarrow> qstate" where
  "setcodeLogic setcode alias st =
     (let st1 = addJoin (js ''JOIN DeckCards AS DC_'' @ alias @ js '' ON D.deck_id = DC_'' @ alias
                          @ js ''.deck_id'') st;
          st2 = addJoin (js ''JOIN CardToSetcode AS CTS_'' @ alias @ js '' ON DC_'' @ alias
                          @ js ''.card_id = CTS_'' @ alias @ js ''.card_id'') st1;
          st3 = addJoin (js ''JOIN Setcodes AS S_'' @ alias @ js '' ON CTS_'' @ alias
                          @ js ''.set_code = S_'' @ alias @ js ''.set_code'') st2;
          st4 = pushCondition (js ''S_'' @ alias @ js ''.set_name_cn LIKE ?'') st3
      in pushBinding (likePattern setcode) st4)"

definition categoricalFilters :: "URLSearchParams \<Rightarrow> qstate \<Rightarrow> qstate" where
  "categoricalFilters sp st =
     (let st1 = processMultiParamFilter sp (js ''race'') raceLogic st;
          st2 = processMultiParamFilter sp (js ''attribute'') attributeLogic st1;
          st3 = processMultiParamFilter sp (js ''type'') typeLogic st2
      in processMultiParamFilter sp (js ''setcode'') setcodeLogic st3)"

text \<open>Lines 100 to 104: the range filters bind whatever \<^verbatim>\<open>parseInt\<close> and
  \<^verbatim>\<open>Date.parse\<close> return. A time value is an integer of at most
  \<open>8640000000000000\<close> milliseconds in either direction (what is outside reads as
  \<^verbatim>\<open>NaN\<close>, as the built-in's clipping does). For such a value
  \<^verbatim>\<open>Math.floor(t / 1000)\<close> is the exact floor: the quotient is an integer or at least
  \<open>1/1000\<close> below the next one, and the doubles of that size are less than \<open>1/1000\<close>
  apart.\<close>

definition timeClip :: "int option \<Rightarrow> int option" where
  "timeClip r =
     (case r of None \<Rightarrow> None
      | Some t \<Rightarrow> if \<bar>t\<bar> \<le> 8640000000000000 then Some t else None)"

definition floorSeconds :: "int option \<Rightarrow> jsnum" where
  "floorSeconds r = (case timeClip r of None \<Rightarrow> NaN | Some t \<Rightarrow> Num (t div 1000))"

definition rangeFilter ::
  "URLSearchParams \<Rightarrow> jsString \<Rightarrow> jsString \<Rightarrow> (jsString \<Rightarrow> jsnum) \<Rightarrow> qstate \<Rightarrow> qstate" where
  "rangeFilter sp name condition convert st =
     (if has sp name
      then (let st1 = pushCondition condition st
            in pushBinding (Number (convert (textOf (get sp name)))) st1)
      else st)"

definition rangeFilters :: "(jsString \<Rightarrow> int option) \<Rightarrow> URLSearchParams \<Rightarrow> qstate \<Rightarrow> qstate" where
  "rangeFilters dateParse sp st =
     (let st1 = rangeFilter sp (js ''likes_ge'') (js ''D.deck_like >= ?'') parseInt st;
          st2 = rangeFilter sp (js ''likes_le'') (js ''D.deck_like <= ?'') parseInt st1;
          st3 = rangeFilter sp (js ''after_date'') (js ''D.upload_date >= ?'')
                  (\<lambda>v. floorSeconds (dateParse v)) st2
      in rangeFilter sp (js ''before_date'') (js ''D.upload_date <= ?'')
           (\<lambda>v. floorSeconds (dateParse v)) st3)"

text \<open>Lines 12 to 104: the accumulators after all the filters have run.\<close>

definition applyFilters :: "(jsString \<Rightarrow> int option) \<Rightarrow> URLSearchParams \<Rightarrow> qstate" where
  "applyFilters dateParse sp =
     (let st1 = deckNameFilter sp emptyState;
          st2 = cardFilter sp st1;
          st3 = categoricalFilters sp st2
      in rangeFilters dateParse sp st3)"

text \<open>The \<^verbatim>\<open>options\<close> object; a field that is absent takes the default of the
  destructuring on line 11.\<close>

record options =
  limit :: "jsnum option"
  offset :: "jsnum option"
  reverse :: "bool option"

definition noOptions :: options where
  "noOptions = \<lparr>limit = None, offset = None, reverse = None\<rparr>"

record query =
  sql :: jsString
  params :: "binding list"

definition countSelect :: jsString where
  "countSelect = js ''SELECT COUNT(DISTINCT D.deck_id) FROM Decks AS D''"

definition dataSelect :: jsString where
  "dataSelect = js ''SELECT DISTINCT D.* FROM Decks AS D''"

text \<open>Lines 107 to 109.\<close>

definition joinsText :: "qstate \<Rightarrow> jsString" where
  "joinsText st = (if length (joins st) > 0 then js '' '' @ joinWith (js '' '') (joins st) else [])"

definition whereText :: "qstate \<Rightarrow> jsString" where
  "whereText st =
     (if length (conditions st) > 0 then js '' WHERE '' @ joinWith (js '' AND '') (conditions st) else [])"

text \<open>Lines 113 to 123.\<close>

definition orderByClause :: "URLSearchParams \<Rightarrow> bool \<Rightarrow> jsString" where
  "orderByClause sp isReverse =
     (let orderDirection = (if isReverse then (js ''ASC'') else (js ''DESC''));
          sortBy = getOr sp (js ''order'') (js ''rate'')
      in if sortBy = js ''date''
         then js '' ORDER BY D.update_date '' @ orderDirection @ js '', D.deck_like '' @ orderDirection
         else js '' ORDER BY D.deck_like '' @ orderDirection @ js '', D.update_date '' @ orderDirection)"

definition buildSearchQuery ::
  "(jsString \<Rightarrow> int option) \<Rightarrow> URLSearchParams \<Rightarrow> bool \<Rightarrow> options \<Rightarrow> query" where
  "buildSearchQuery dateParse sp isCountQuery opts =
     (let lim = (case limit opts of None \<Rightarrow> Num 10 | Some l \<Rightarrow> l);
          off = (case offset opts of None \<Rightarrow> Num 0 | Some off \<Rightarrow> off);
          isReverse = (case reverse opts of None \<Rightarrow> False | Some r \<Rightarrow> r);
          baseSelect = (if isCountQuery then countSelect else dataSelect);
          st = applyFilters dateParse sp;
          text = baseSelect @ joinsText st @ whereText st
      in if \<not> isCountQuery
         then \<lparr>sql = text @ orderByClause sp isReverse @ js '' LIMIT ? OFFSET ?'',
               params = bindings st @ [Number lim, Number off]\<rparr>
         else \<lparr>sql = text, params = bindings st\<rparr>)"

subsection \<open>The request handler \<^verbatim>\<open>handleSearchRequest\<close>\<close>

text \<open>A result row is an object: its columns with their values.\<close>

type_synonym row = "(jsString \<times> jsval) list"

text \<open>One result of the database: \<^verbatim>\<open>success\<close> and \<^verbatim>\<open>results\<close> (which may be
  undefined).\<close>

record d1result =
  success :: bool
  results :: "row list option"

text \<open>What a \<^verbatim>\<open>batch\<close> call of two statements does: it throws, or it resolves to one
  result for each statement. The database is a state machine: one call is one transition,
  from the state the call finds to the state it leaves, and both results of a batch are
  computed in that one transition.\<close>

datatype batchOutcome = Throws jsString | Resolves d1result d1result

type_synonym 's engine = "query list \<Rightarrow> 's \<Rightarrow> batchOutcome \<times> 's"

text \<open>The error texts: the three validation messages, the message of a failed batch, and
  the message of the catch block, which carries the text of the exception. A property read
  from undefined is a \<^verbatim>\<open>TypeError\<close>.\<close>

datatype exn = EngineError jsString | TypeError

datatype errorMessage =
  InvalidStart | InvalidEnd | InvalidSize | QueryFailed | InternalError exn

text \<open>The body of a response: \<^verbatim>\<open>{success: false, error}\<close>, or
  \<^verbatim>\<open>{success: true, data: {total, start, size, list}}\<close> with its four fields in this
  order.\<close>

datatype body =
  ErrorBody errorMessage
| DataBody jsval jsnum nat "row list"

record response =
  status :: nat
  payload :: body

definition JsonResponse :: "body \<Rightarrow> nat \<Rightarrow> response" where
  "JsonResponse data st = \<lparr>status = st, payload = data\<rparr>"

text \<open>Lines 143 to 169: the pagination. \<open>Inl\<close> is the early return of a 400 response,
  \<open>Inr\<close> the pair of \<^verbatim>\<open>limit\<close> and \<^verbatim>\<open>offset\<close>.\<close>

definition resolvePagination :: "URLSearchParams \<Rightarrow> response + jsnum \<times> jsnum" where
  "resolvePagination searchParams =
     (case get searchParams (js ''start'') of
        None \<Rightarrow> Inr (Num 10, Num 0)
      | Some startParam \<Rightarrow>
          (let start = parseInt startParam
           in if start = NaN \<or> numLess start (Num 0)
              then Inl (JsonResponse (ErrorBody InvalidStart) 400)
              else
                (case get searchParams (js ''end'') of
                   Some endParam \<Rightarrow>
                     (let endValue = parseInt endParam
                      in if endValue = NaN \<or> numLessEqual endValue start
                         then Inl (JsonResponse (ErrorBody InvalidEnd) 400)
                         else Inr (numMinus endValue start, start))
                 | None \<Rightarrow>
                     (case get searchParams (js ''size'') of
                        Some sizeParam \<Rightarrow>
                          (let sz = parseInt sizeParam
                           in if sz = NaN \<or> numLessEqual sz (Num 0)
                              then Inl (JsonResponse (ErrorBody InvalidSize) 400)
                              else Inr (sz, start))
                      | None \<Rightarrow> Inr (Num 10, start)))))"

text \<open>Line 192: \<^verbatim>\<open>countResult.results[0]['COUNT(DISTINCT D.deck_id)'] || 0\<close>. Reading
  \<^verbatim>\<open>[0]\<close> of undefined, or the column of an undefined first row, throws.\<close>

definition totalOf :: "d1result \<Rightarrow> exn + jsval" where
  "totalOf countResult =
     (case results countResult of
        None \<Rightarrow> Inl TypeError
      | Some [] \<Rightarrow> Inl TypeError
      | Some (r # _) \<Rightarrow>
          (case map_of r (js ''COUNT(DISTINCT D.deck_id)'') of
             None \<Rightarrow> Inr (JNumber (Num 0))
           | Some v \<Rightarrow> Inr (if truthy v then v else JNumber (Num 0))))"

text \<open>Lines 172 to 207, on the database in state \<open>db\<close>. The handler touches the
  database only through \<open>batch\<close>; an early return leaves it in the state it was in.\<close>

definition handleSearchRequest ::
  "(jsString \<Rightarrow> int option) \<Rightarrow> 's engine \<Rightarrow> URLSearchParams \<Rightarrow> 's \<Rightarrow> response \<times> 's" where
  "handleSearchRequest dateParse batch searchParams db =
     (case resolvePagination searchParams of
        Inl resp \<Rightarrow> (resp, db)
      | Inr (lim, off) \<Rightarrow>
          (let isReverse = (get searchParams (js ''reverse'') = Some (js ''true''));
               queryOptions = \<lparr>limit = Some lim, offset = Some off, reverse = Some isReverse\<rparr>;
               query = buildSearchQuery dateParse searchParams False queryOptions;
               countQuery = buildSearchQuery dateParse searchParams True noOptions
           in (case batch [query, countQuery] db of
                 (Throws msg, db') \<Rightarrow>
                   (JsonResponse (ErrorBody (InternalError (EngineError msg))) 500, db')
               | (Resolves dataResult countResult, db') \<Rightarrow>
                   if \<not> success dataResult \<or> \<not> success countResult
                   then (JsonResponse (ErrorBody QueryFailed) 500, db')
                   else
                     (case totalOf countResult of
                        Inl e \<Rightarrow> (JsonResponse (ErrorBody (InternalError e)) 500, db')
                      | Inr tot \<Rightarrow>
                          (JsonResponse
                             (DataBody tot off
                                (case results dataResult of None \<Rightarrow> 0 | Some rs \<Rightarrow> length rs)
                                (case results dataResult of None \<Rightarrow> [] | Some rs \<Rightarrow> rs))
                             200, db')))))"

text \<open>A database that keeps a journal: it behaves as \<open>batch\<close> does and appends the
  statements of every call it receives to the journal in its state.\<close>

definition journaled :: "'s engine \<Rightarrow> ('s \<times> query list list) engine" where
  "journaled batch qs =
     (\<lambda>(db, journal). case batch qs db of (outcome, db') \<Rightarrow> (outcome, (db', journal @ [qs])))"

subsection \<open>The join fragments of one occurrence\<close>

text \<open>The fragments that the card filter (lines 47 and 48) and the four categorical
  filters (lines 65 to 67, 74 to 76, 83 to 85 and 92 to 94) add for the occurrence with
  index \<open>i\<close>, written out with the alias of that occurrence.\<close>

definition cardJoins :: "nat \<Rightarrow> jsString list" where
  "cardJoins i =
     (let a = js ''card'' @ showNat i
      in [js ''JOIN DeckCards AS DC_'' @ a @ js '' ON D.deck_id = DC_'' @ a @ js ''.deck_id'',
          js ''JOIN Cards AS C_'' @ a @ js '' ON DC_'' @ a @ js ''.card_id = C_'' @ a @ js ''.id''])"

definition raceJoins :: "nat \<Rightarrow> jsString list" where
  "raceJoins i =
     (let a = js ''race'' @ showNat i
      in [js ''JOIN DeckCards AS DC_'' @ a @ js '' ON D.deck_id = DC_'' @ a @ js ''.deck_id'',
          js ''JOIN CardToRace AS CTR_'' @ a @ js '' ON DC_'' @ a @ js ''.card_id = CTR_'' @ a @ js ''.card_id'',
          js ''JOIN Races AS R_'' @ a @ js '' ON CTR_'' @ a @ js ''.race_code = R_'' @ a @ js ''.race_code''])"

definition attributeJoins :: "nat \<Rightarrow> jsString list" where
  "attributeJoins i =
     (let a = js ''attribute'' @ showNat i
      in [js ''JOIN DeckCards AS DC_'' @ a @ js '' ON D.deck_id = DC_'' @ a @ js ''.deck_id'',
          js ''JOIN CardToAttribute AS CTA_'' @ a @ js '' ON DC_'' @ a @ js ''.card_id = CTA_'' @ a @ js ''.card_id'',
          js ''JOIN Attributes AS A_'' @ a @ js '' ON CTA_'' @ a @ js ''.attribute_code = A_'' @ a @ js ''.attribute_code''])"

definition typeJoins :: "nat \<Rightarrow> jsString list" where
  "typeJoins i =
     (let a = js ''type'' @ showNat i
      in [js ''JOIN DeckCards AS DC_'' @ a @ js '' ON D.deck_id = DC_'' @ a @ js ''.deck_id'',
          js ''JOIN CardToType AS CTT_'' @ a @ js '' ON DC_'' @ a @ js ''.card_id = CTT_'' @ a @ js ''.card_id'',
          js ''JOIN CardTypes AS CT_'' @ a @ js '' ON CTT_'' @ a @ js ''.type_code = CT_'' @ a @ js ''.type_code''])"

definition setcodeJoins :: "nat \<Rightarrow> jsString list" where
  "setcodeJoins i =
     (let a = js ''setcode'' @ showNat i
      in [js ''JOIN DeckCards AS DC_'' @ a @ js '' ON D.deck_id = DC_'' @ a @ js ''.deck_id'',
          js ''JOIN CardToSetcode AS CTS_'' @ a @ js '' ON DC_'' @ a @ js ''.card_id = CTS_'' @ a @ js ''.card_id'',
          js ''JOIN Setcodes AS S_'' @ a @ js '' ON CTS_'' @ a @ js ''.set_code = S_'' @ a @ js ''.set_code''])"

subsection \<open>Sample collaborators\<close>

text \<open>A \<^verbatim>\<open>Date.parse\<close> that understands no string, a database that answers every
  batch with the given rows and the given count and whose state is the number of calls it
  has answered, and five rows.\<close>

definition noDates :: "jsString \<Rightarrow> int option" where
  "noDates s = None"

definition answering :: "row list \<Rightarrow> int \<Rightarrow> nat engine" where
  "answering rows n qs db =
     (Resolves \<lparr>success = True, results = Some rows\<rparr>
               \<lparr>success = True,
                  results = Some [[(js ''COUNT(DISTINCT D.deck_id)'', JNumber (Num n))]]\<rparr>,
      Suc db)"

definition fiveRows :: "row list" where
  "fiveRows = map (\<lambda>n. [(js ''deck_id'', JNumber (Num n))]) [1, 2, 3, 4, 5]"

section \<open>Properties of the handler\<close>

subsection \<open>What the handler does after the pagination\<close>

lemma js_eq_iff [simp]: "js a = js b \<longleftrightarrow> a = b"
  by (simp add: js_def inj_map_eq_map inj_on_def)

lemma js_simps: "js [] = []" "js (c # s) = of_char c # js s"
  by (simp_all add: js_def)

lemma js_append: "js a @ js b = js (a @ b)" "js a @ js b @ z = js (a @ b) @ z"
  by (simp_all add: js_def)

lemma handler_rejects:
  "resolvePagination sp = Inl resp \<Longrightarrow> handleSearchRequest dp batch sp db = (resp, db)"
  by (simp add: handleSearchRequest_def)

lemma handler_applies_batch:
  "resolvePagination sp = Inr (lim, off) \<Longrightarrow>
   snd (handleSearchRequest dp batch sp db) =
     snd (batch
            [buildSearchQuery dp sp False
               \<lparr>limit = Some lim, offset = Some off,
                  reverse = Some (get sp (js ''reverse'') = Some (js ''true''))\<rparr>,
             buildSearchQuery dp sp True noOptions] db)"
  by (simp add: handleSearchRequest_def Let_def split: prod.splits batchOutcome.splits sum.splits)

lemma handler_journal:
  "resolvePagination sp = Inr (lim, off) \<Longrightarrow>
   snd (snd (handleSearchRequest dp (journaled batch) sp (db, journal))) =
     journal @
     [[buildSearchQuery dp sp False
         \<lparr>limit = Some lim, offset = Some off,
            reverse = Some (get sp (js ''reverse'') = Some (js ''true''))\<rparr>,
       buildSearchQuery dp sp True noOptions]]"
  by (simp add: handler_applies_batch journaled_def split: prod.splits)

lemma journaled_response:
  "fst (handleSearchRequest dp (journaled batch) sp (db, journal)) =
   fst (handleSearchRequest dp batch sp db)"
  by (cases "resolvePagination sp")
     (auto simp add: handleSearchRequest_def journaled_def Let_def
           split: prod.splits batchOutcome.splits sum.splits)

lemma handler_status:
  "resolvePagination sp = Inr (lim, off) \<Longrightarrow>
   status (fst (handleSearchRequest dp batch sp db)) = 200 \<or>
   status (fst (handleSearchRequest dp batch sp db)) = 500"
  by (simp add: handleSearchRequest_def Let_def JsonResponse_def
           split: prod.splits batchOutcome.splits sum.splits)

lemma pagination_status:
  "resolvePagination sp = Inl resp \<Longrightarrow> status resp = 400"
  by (auto simp add: resolvePagination_def JsonResponse_def Let_def
           split: option.splits if_splits)

lemma pagination_error_body:
  "resolvePagination sp = Inl resp \<Longrightarrow> \<exists>m. payload resp = ErrorBody m"
  by (auto simp add: resolvePagination_def JsonResponse_def Let_def
           split: option.splits if_splits)

lemma parseInt_examples:
  "parseInt (js ''10'') = Num 10" "parseInt (js ''30'') = Num 30" "parseInt (js ''0'') = Num 0"
  "parseInt (js ''20'') = Num 20"
  by code_simp+

subsection \<open>The accumulators, step by step\<close>

lemma conditions_simps [simp]:
  "conditions (addJoin j st) = conditions st"
  "conditions (pushCondition c st) = conditions st @ [c]"
  "conditions (pushBinding b st) = conditions st"
  by (simp_all add: addJoin_def pushCondition_def pushBinding_def)

lemma bindings_simps [simp]:
  "bindings (addJoin j st) = bindings st"
  "bindings (pushCondition c st) = bindings st"
  "bindings (pushBinding b st) = bindings st @ [b]"
  by (simp_all add: addJoin_def pushCondition_def pushBinding_def)

lemma joins_simps [simp]:
  "joins (pushCondition c st) = joins st"
  "joins (pushBinding b st) = joins st"
  "set (joins (addJoin j st)) = insert j (set (joins st))"
  by (auto simp add: addJoin_def pushCondition_def pushBinding_def)

lemma has_get: "has sp name = (get sp name \<noteq> None)"
  by (simp add: has_def get_def split: list.splits)

lemma rangeFilter_conditions:
  "conditions (rangeFilter sp name c f st) =
   conditions st @ (case get sp name of None \<Rightarrow> [] | Some v \<Rightarrow> [c])"
  by (simp add: rangeFilter_def has_get textOf_def Let_def split: option.splits)

lemma rangeFilter_bindings:
  "bindings (rangeFilter sp name c f st) =
   bindings st @ (case get sp name of None \<Rightarrow> [] | Some v \<Rightarrow> [Number (f v)])"
  by (simp add: rangeFilter_def has_get textOf_def Let_def split: option.splits)

lemma rangeFilter_joins: "joins (rangeFilter sp name c f st) = joins st"
  by (simp add: rangeFilter_def Let_def)

lemma deckNameFilter_joins: "joins (deckNameFilter sp st) = joins st"
  by (simp add: deckNameFilter_def Let_def)

lemma applyFilters_range_bindings:
  "\<exists>pre. bindings (applyFilters dp sp) = pre
     @ (case get sp (js ''likes_ge'') of None \<Rightarrow> [] | Some v \<Rightarrow> [Number (parseInt v)])
     @ (case get sp (js ''likes_le'') of None \<Rightarrow> [] | Some v \<Rightarrow> [Number (parseInt v)])
     @ (case get sp (js ''after_date'') of None \<Rightarrow> []
        | Some v \<Rightarrow> [Number (floorSeconds (dp v))])
     @ (case get sp (js ''before_date'') of None \<Rightarrow> []
        | Some v \<Rightarrow> [Number (floorSeconds (dp v))])"
  by (simp add: applyFilters_def rangeFilters_def Let_def rangeFilter_bindings)

lemma build_params:
  "params (buildSearchQuery dp sp True opts) = bindings (applyFilters dp sp)"
  "params (buildSearchQuery dp sp False \<lparr>limit = Some lim, offset = Some off, reverse = r\<rparr>) =
     bindings (applyFilters dp sp) @ [Number lim, Number off]"
  by (simp_all add: buildSearchQuery_def Let_def)

lemma getAll_without:
  "name \<noteq> other \<Longrightarrow> getAll (filter (\<lambda>kv. fst kv \<noteq> other) sp) name = getAll sp name"
  "getAll (filter (\<lambda>kv. fst kv \<noteq> other) sp) other = []"
proof -
  show "name \<noteq> other \<Longrightarrow> getAll (filter (\<lambda>kv. fst kv \<noteq> other) sp) name = getAll sp name"
    by (induction sp) (auto simp add: getAll_def)
  show "getAll (filter (\<lambda>kv. fst kv \<noteq> other) sp) other = []"
    by (induction sp) (auto simp add: getAll_def)
qed

lemma get_without:
  "name \<noteq> other \<Longrightarrow> get (filter (\<lambda>kv. fst kv \<noteq> other) sp) name = get sp name"
  by (simp add: get_def getAll_without)

lemma has_without:
  "name \<noteq> other \<Longrightarrow> has (filter (\<lambda>kv. fst kv \<noteq> other) sp) name = has sp name"
  by (simp add: has_def getAll_without)

lemma orderByClause_cases:
  "orderByClause sp r =
     (if r then (if getOr sp (js ''order'') (js ''rate'') = js ''date''
                 then (js '' ORDER BY D.update_date ASC, D.deck_like ASC'')
                 else (js '' ORDER BY D.deck_like ASC, D.update_date ASC''))
      else (if getOr sp (js ''order'') (js ''rate'') = js ''date''
            then (js '' ORDER BY D.update_date DESC, D.deck_like DESC'')
            else (js '' ORDER BY D.deck_like DESC, D.update_date DESC'')))"
  by (simp add: orderByClause_def Let_def js_simps)

subsection \<open>Aliases, conditions and joins of the repeated filters\<close>

lemma decimalValue_append:
  "decimalValue (z @ [c]) = 10 * decimalValue z + (c - 48)"
  by (simp add: decimalValue_def)

lemma decimalValue_showNat: "decimalValue (showNat n) = int n"
proof (induction n rule: showNat.induct)
  case (1 n)
  show ?case
  proof (cases "n < 10")
    case True
    then show ?thesis
      by (simp add: showNat.simps [of n] decimalValue_def)
  next
    case False
    with 1 have "decimalValue (showNat (n div 10)) = int (n div 10)" by simp
    with False show ?thesis
      by (simp add: showNat.simps [of n] decimalValue_append zdiv_int zmod_int)
  qed
qed

lemma showNat_inj: "showNat m = showNat n \<Longrightarrow> m = n"
  by (metis decimalValue_showNat of_nat_eq_iff)

lemma aliasOf_inj: "aliasOf name i = aliasOf name j \<Longrightarrow> i = j"
  by (simp add: aliasOf_def showNat_inj)

lemma forEachFrom_conditions:
  assumes "\<And>x i st. conditions (body x i st) = conditions st @ [c i]"
  shows "conditions (forEachFrom i body xs st) = conditions st @ map c [i..<i + length xs]"
proof (induction xs arbitrary: i st)
  case Nil
  show ?case by simp
next
  case (Cons x xs)
  have "[i..<i + length (x # xs)] = i # [Suc i..<Suc i + length xs]"
    by (subst upt_rec) simp
  with Cons assms show ?case by simp
qed

lemma race_conditions:
  "conditions (processMultiParamFilter sp (js ''race'') raceLogic st) =
   conditions st @ map (\<lambda>i. js ''R_'' @ aliasOf (js ''race'') i @ js ''.race_name LIKE ?'')
                     [0..<length (getAll sp (js ''race''))]"
  unfolding processMultiParamFilter_def forEach_def
  by (subst forEachFrom_conditions [where c = "\<lambda>i. js ''R_'' @ aliasOf (js ''race'') i @ js ''.race_name LIKE ?''"])
     (simp_all add: raceLogic_def Let_def)

lemma attribute_conditions:
  "conditions (processMultiParamFilter sp (js ''attribute'') attributeLogic st) =
   conditions st @ map (\<lambda>i. js ''A_'' @ aliasOf (js ''attribute'') i @ js ''.attribute_name LIKE ?'')
                     [0..<length (getAll sp (js ''attribute''))]"
  unfolding processMultiParamFilter_def forEach_def
  by (subst forEachFrom_conditions
        [where c = "\<lambda>i. js ''A_'' @ aliasOf (js ''attribute'') i @ js ''.attribute_name LIKE ?''"])
     (simp_all add: attributeLogic_def Let_def)

lemma type_conditions:
  "conditions (processMultiParamFilter sp (js ''type'') typeLogic st) =
   conditions st @ map (\<lambda>i. js ''CT_'' @ aliasOf (js ''type'') i @ js ''.type_name LIKE ?'')
                     [0..<length (getAll sp (js ''type''))]"
  unfolding processMultiParamFilter_def forEach_def
  by (subst forEachFrom_conditions
        [where c = "\<lambda>i. js ''CT_'' @ aliasOf (js ''type'') i @ js ''.type_name LIKE ?''"])
     (simp_all add: typeLogic_def Let_def)

lemma setcode_conditions:
  "conditions (processMultiParamFilter sp (js ''setcode'') setcodeLogic st) =
   conditions st @ map (\<lambda>i. js ''S_'' @ aliasOf (js ''setcode'') i @ js ''.set_name_cn LIKE ?'')
                     [0..<length (getAll sp (js ''setcode''))]"
  unfolding processMultiParamFilter_def forEach_def
  by (subst forEachFrom_conditions
        [where c = "\<lambda>i. js ''S_'' @ aliasOf (js ''setcode'') i @ js ''.set_name_cn LIKE ?''"])
     (simp_all add: setcodeLogic_def Let_def)

lemma rangeFilters_conditions:
  "conditions (rangeFilters dp sp st) = conditions st @ conditions (rangeFilters dp sp emptyState)"
  by (simp add: rangeFilters_def Let_def rangeFilter_conditions emptyState_def)

lemma applyFilters_conditions:
  "conditions (applyFilters dp sp) =
     conditions (cardFilter sp (deckNameFilter sp emptyState))
     @ map (\<lambda>i. js ''R_'' @ aliasOf (js ''race'') i @ js ''.race_name LIKE ?'')
         [0..<length (getAll sp (js ''race''))]
     @ map (\<lambda>i. js ''A_'' @ aliasOf (js ''attribute'') i @ js ''.attribute_name LIKE ?'')
         [0..<length (getAll sp (js ''attribute''))]
     @ map (\<lambda>i. js ''CT_'' @ aliasOf (js ''type'') i @ js ''.type_name LIKE ?'')
         [0..<length (getAll sp (js ''type''))]
     @ map (\<lambda>i. js ''S_'' @ aliasOf (js ''setcode'') i @ js ''.set_name_cn LIKE ?'')
         [0..<length (getAll sp (js ''setcode''))]
     @ conditions (rangeFilters dp sp emptyState)"
  unfolding applyFilters_def categoricalFilters_def Let_def
  by (subst rangeFilters_conditions)
     (simp add: race_conditions attribute_conditions type_conditions setcode_conditions)


lemma rangeFilters_joins: "joins (rangeFilters dp sp st) = joins st"
  by (simp add: rangeFilters_def rangeFilter_joins Let_def)

lemma alias_text:
  "aliasOf (js ''race'') i = js ''race'' @ showNat i"
  "aliasOf (js ''attribute'') i = js ''attribute'' @ showNat i"
  "aliasOf (js ''type'') i = js ''type'' @ showNat i"
  "aliasOf (js ''setcode'') i = js ''setcode'' @ showNat i"
  by (simp_all add: aliasOf_def isLetter_def js_simps)

lemma aliases_distinct:
  "distinct (map (aliasOf (js ''race'')) [0..<nr] @ map (aliasOf (js ''attribute'')) [0..<na]
             @ map (aliasOf (js ''type'')) [0..<nt] @ map (aliasOf (js ''setcode'')) [0..<ns])"
proof -
  have inj: "inj_on (aliasOf name) A" for name A
    by (rule inj_onI) (rule aliasOf_inj)
  have d: "distinct (map (aliasOf name) [0..<n])" for name n
    by (simp add: distinct_map inj)
  show ?thesis
    apply (auto simp add: d)
         apply (simp_all only: alias_text)
         apply (simp_all add: js_simps)
    done
qed

lemma showNat_digits: "c \<in> set (showNat n) \<Longrightarrow> isDigit c"
proof (induction n rule: showNat.induct)
  case (1 n)
  show ?case
  proof (cases "n < 10")
    case True
    with 1(2) show ?thesis
      by (simp add: showNat.simps [of n] isDigit_def)
  next
    case False
    have "isDigit (48 + int (n mod 10))"
      by (simp add: isDigit_def)
    with False 1 show ?thesis
      by (auto simp add: showNat.simps [of n])
  qed
qed

lemma takeWhile_showNat:
  "\<not> isDigit c \<Longrightarrow> takeWhile isDigit (showNat n @ c # r) = showNat n"
  by (simp add: takeWhile_append2 showNat_digits)

lemma showNat_append_eq:
  assumes "\<not> isDigit c" and "\<not> isDigit c'"
  shows "(showNat k @ c # r = showNat l @ c' # r') = (k = l \<and> c = c' \<and> r = r')"
proof
  assume e: "showNat k @ c # r = showNat l @ c' # r'"
  then have "takeWhile isDigit (showNat k @ c # r) = takeWhile isDigit (showNat l @ c' # r')"
    by simp
  with assms have "showNat k = showNat l"
    by (simp add: takeWhile_showNat)
  with e show "k = l \<and> c = c' \<and> r = r'"
    by (simp add: showNat_inj)
qed simp

lemma forEachFrom_joins_fresh:
  assumes step: "\<And>x i st. set (J i) \<inter> set (joins st) = {} \<Longrightarrow> joins (body x i st) = joins st @ J i"
    and apart: "\<And>k l. k \<noteq> l \<Longrightarrow> set (J k) \<inter> set (J l) = {}"
    and fresh: "\<And>k. i \<le> k \<Longrightarrow> set (J k) \<inter> set (joins st) = {}"
  shows "joins (forEachFrom i body xs st) = joins st @ concat (map J [i..<i + length xs])"
  using fresh
proof (induction xs arbitrary: i st)
  case Nil
  show ?case by simp
next
  case (Cons x xs)
  have u: "[i..<i + length (x # xs)] = i # [Suc i..<Suc i + length xs]"
    by (subst upt_rec) simp
  from Cons.prems [of i] have s: "joins (body x i st) = joins st @ J i"
    by (simp add: step)
  have "set (J k) \<inter> set (joins (body x i st)) = {}" if "Suc i \<le> k" for k
    using that Cons.prems [of k] apart [of k i] by (auto simp add: s)
  then have "joins (forEachFrom (Suc i) body xs (body x i st)) =
             joins (body x i st) @ concat (map J [Suc i..<Suc i + length xs])"
    by (rule Cons.IH)
  with s u show ?case by simp
qed

lemma nondigits [simp]:
  "\<not> isDigit 32" "\<not> isDigit 46"
  by (simp_all add: isDigit_def)

lemma disjoint_concat:
  "(\<And>i. set A \<inter> set (J i) = {}) \<Longrightarrow> set A \<inter> set (concat (map J ks)) = {}"
  by auto

lemma disjoint_append:
  "set A \<inter> set xs = {} \<Longrightarrow> (\<And>i. set A \<inter> set (J i) = {}) \<Longrightarrow>
   set A \<inter> set (xs @ concat (map J ks)) = {}"
  by auto

lemma cardJoins_apart: "k \<noteq> l \<Longrightarrow> set (cardJoins k) \<inter> set (cardJoins l) = {}"
  by (simp add: cardJoins_def Let_def js_simps showNat_append_eq)

lemma cardBody_fresh:
  "set (cardJoins i) \<inter> set (joins st) = {} \<Longrightarrow>
   joins (cardBody langs query i st) = joins st @ cardJoins i"
proof -
  have f: "joins (fold (\<lambda>_. pushBinding b) ls s) = joins s" for b ls s
    by (induction ls arbitrary: s) simp_all
  show "set (cardJoins i) \<inter> set (joins st) = {} \<Longrightarrow>
        joins (cardBody langs query i st) = joins st @ cardJoins i"
    by (simp add: cardBody_def cardJoins_def Let_def addJoin_def f js_simps)
qed

lemma card_joins_list:
  "joins (cardFilter sp (deckNameFilter sp emptyState)) =
     (if getAll sp (js ''card'') \<noteq> [] \<and> langsOf sp \<noteq> []
      then concat (map cardJoins [0..<length (getAll sp (js ''card''))]) else [])"
proof -
  have d: "joins (deckNameFilter sp emptyState) = []"
    by (simp add: deckNameFilter_joins emptyState_def)
  have "joins (forEachFrom 0 (cardBody (langsOf sp)) (getAll sp (js ''card''))
                 (deckNameFilter sp emptyState)) =
        joins (deckNameFilter sp emptyState)
          @ concat (map cardJoins [0..<0 + length (getAll sp (js ''card''))])"
    by (rule forEachFrom_joins_fresh) (simp_all add: cardBody_fresh cardJoins_apart d)
  then show ?thesis
    by (simp add: cardFilter_def Let_def forEach_def d)
qed

lemma raceJoins_apart: "k \<noteq> l \<Longrightarrow> set (raceJoins k) \<inter> set (raceJoins l) = {}"
  by (simp add: raceJoins_def Let_def js_simps showNat_append_eq)

lemma raceLogic_fresh:
  "set (raceJoins i) \<inter> set (joins st) = {} \<Longrightarrow>
   joins (raceLogic v (aliasOf (js ''race'') i) st) = joins st @ raceJoins i"
  unfolding raceLogic_def alias_text
  by (simp add: raceJoins_def Let_def addJoin_def js_simps)

lemma race_joins_list:
  assumes "\<And>k. set (raceJoins k) \<inter> set (joins st) = {}"
  shows "joins (processMultiParamFilter sp (js ''race'') raceLogic st) =
         joins st @ concat (map raceJoins [0..<length (getAll sp (js ''race''))])"
proof -
  have "joins (forEachFrom 0 (\<lambda>v i. raceLogic v (aliasOf (js ''race'') i)) (getAll sp (js ''race'')) st) =
        joins st @ concat (map raceJoins [0..<0 + length (getAll sp (js ''race''))])"
    by (rule forEachFrom_joins_fresh) (simp_all add: raceLogic_fresh raceJoins_apart assms)
  then show ?thesis
    by (simp add: processMultiParamFilter_def forEach_def)
qed

lemma attributeJoins_apart: "k \<noteq> l \<Longrightarrow> set (attributeJoins k) \<inter> set (attributeJoins l) = {}"
  by (simp add: attributeJoins_def Let_def js_simps showNat_append_eq)

lemma attributeLogic_fresh:
  "set (attributeJoins i) \<inter> set (joins st) = {} \<Longrightarrow>
   joins (attributeLogic v (aliasOf (js ''attribute'') i) st) = joins st @ attributeJoins i"
  unfolding attributeLogic_def alias_text
  by (simp add: attributeJoins_def Let_def addJoin_def js_simps)

lemma attribute_joins_list:
  assumes "\<And>k. set (attributeJoins k) \<inter> set (joins st) = {}"
  shows "joins (processMultiParamFilter sp (js ''attribute'') attributeLogic st) =
         joins st @ concat (map attributeJoins [0..<length (getAll sp (js ''attribute''))])"
proof -
  have "joins (forEachFrom 0 (\<lambda>v i. attributeLogic v (aliasOf (js ''attribute'') i)) (getAll sp (js ''attribute'')) st) =
        joins st @ concat (map attributeJoins [0..<0 + length (getAll sp (js ''attribute''))])"
    by (rule forEachFrom_joins_fresh) (simp_all add: attributeLogic_fresh attributeJoins_apart assms)
  then show ?thesis
    by (simp add: processMultiParamFilter_def forEach_def)
qed

lemma typeJoins_apart: "k \<noteq> l \<Longrightarrow> set (typeJoins k) \<inter> set (typeJoins l) = {}"
  by (simp add: typeJoins_def Let_def js_simps showNat_append_eq)

lemma typeLogic_fresh:
  "set (typeJoins i) \<inter> set (joins st) = {} \<Longrightarrow>
   joins (typeLogic v (aliasOf (js ''type'') i) st) = joins st @ typeJoins i"
  unfolding typeLogic_def alias_text
  by (simp add: typeJoins_def Let_def addJoin_def js_simps)

lemma type_joins_list:
  assumes "\<And>k. set (typeJoins k) \<inter> set (joins st) = {}"
  shows "joins (processMultiParamFilter sp (js ''type'') typeLogic st) =
         joins st @ concat (map typeJoins [0..<length (getAll sp (js ''type''))])"
proof -
  have "joins (forEachFrom 0 (\<lambda>v i. typeLogic v (aliasOf (js ''type'') i)) (getAll sp (js ''type'')) st) =
        joins st @ concat (map typeJoins [0..<0 + length (getAll sp (js ''type''))])"
    by (rule forEachFrom_joins_fresh) (simp_all add: typeLogic_fresh typeJoins_apart assms)
  then show ?thesis
    by (simp add: processMultiParamFilter_def forEach_def)
qed

lemma setcodeJoins_apart: "k \<noteq> l \<Longrightarrow> set (setcodeJoins k) \<inter> set (setcodeJoins l) = {}"
  by (simp add: setcodeJoins_def Let_def js_simps showNat_append_eq)

lemma setcodeLogic_fresh:
  "set (setcodeJoins i) \<inter> set (joins st) = {} \<Longrightarrow>
   joins (setcodeLogic v (aliasOf (js ''setcode'') i) st) = joins st @ setcodeJoins i"
  unfolding setcodeLogic_def alias_text
  by (simp add: setcodeJoins_def Let_def addJoin_def js_simps)

lemma setcode_joins_list:
  assumes "\<And>k. set (setcodeJoins k) \<inter> set (joins st) = {}"
  shows "joins (processMultiParamFilter sp (js ''setcode'') setcodeLogic st) =
         joins st @ concat (map setcodeJoins [0..<length (getAll sp (js ''setcode''))])"
proof -
  have "joins (forEachFrom 0 (\<lambda>v i. setcodeLogic v (aliasOf (js ''setcode'') i)) (getAll sp (js ''setcode'')) st) =
        joins st @ concat (map setcodeJoins [0..<0 + length (getAll sp (js ''setcode''))])"
    by (rule forEachFrom_joins_fresh) (simp_all add: setcodeLogic_fresh setcodeJoins_apart assms)
  then show ?thesis
    by (simp add: processMultiParamFilter_def forEach_def)
qed

lemma joins_of_two_keys:
  "set (raceJoins k) \<inter> set (cardJoins l) = {}"
  "set (attributeJoins k) \<inter> set (cardJoins l) = {}"
  "set (typeJoins k) \<inter> set (cardJoins l) = {}"
  "set (setcodeJoins k) \<inter> set (cardJoins l) = {}"
  "set (attributeJoins k) \<inter> set (raceJoins l) = {}"
  "set (typeJoins k) \<inter> set (raceJoins l) = {}"
  "set (setcodeJoins k) \<inter> set (raceJoins l) = {}"
  "set (typeJoins k) \<inter> set (attributeJoins l) = {}"
  "set (setcodeJoins k) \<inter> set (attributeJoins l) = {}"
  "set (setcodeJoins k) \<inter> set (typeJoins l) = {}"
  by (simp_all add: cardJoins_def raceJoins_def attributeJoins_def typeJoins_def setcodeJoins_def
        Let_def js_simps)

lemma applyFilters_joins_list:
  "joins (applyFilters dp sp) =
     (if getAll sp (js ''card'') \<noteq> [] \<and> langsOf sp \<noteq> []
      then concat (map cardJoins [0..<length (getAll sp (js ''card''))]) else [])
     @ concat (map raceJoins [0..<length (getAll sp (js ''race''))])
     @ concat (map attributeJoins [0..<length (getAll sp (js ''attribute''))])
     @ concat (map typeJoins [0..<length (getAll sp (js ''type''))])
     @ concat (map setcodeJoins [0..<length (getAll sp (js ''setcode''))])"
proof -
  let ?c = "cardFilter sp (deckNameFilter sp emptyState)"
  let ?r = "processMultiParamFilter sp (js ''race'') raceLogic ?c"
  let ?a = "processMultiParamFilter sp (js ''attribute'') attributeLogic ?r"
  let ?t = "processMultiParamFilter sp (js ''type'') typeLogic ?a"
  let ?s = "processMultiParamFilter sp (js ''setcode'') setcodeLogic ?t"
  have e: "joins (applyFilters dp sp) = joins ?s"
    by (simp add: applyFilters_def categoricalFilters_def Let_def rangeFilters_joins)
  note c = card_joins_list [of sp]
  have fc: "set (raceJoins k) \<inter> set (joins ?c) = {}"
           "set (attributeJoins k) \<inter> set (joins ?c) = {}"
           "set (typeJoins k) \<inter> set (joins ?c) = {}"
           "set (setcodeJoins k) \<inter> set (joins ?c) = {}" for k
  proof -
    have "joins ?c = [] @ concat (map cardJoins [0..<length (getAll sp (js ''card''))]) \<or> joins ?c = []"
      by (simp add: c)
    then show "set (raceJoins k) \<inter> set (joins ?c) = {}"
              "set (attributeJoins k) \<inter> set (joins ?c) = {}"
              "set (typeJoins k) \<inter> set (joins ?c) = {}"
              "set (setcodeJoins k) \<inter> set (joins ?c) = {}"
      using disjoint_append [of "raceJoins k" "[]" cardJoins]
            disjoint_append [of "attributeJoins k" "[]" cardJoins]
            disjoint_append [of "typeJoins k" "[]" cardJoins]
            disjoint_append [of "setcodeJoins k" "[]" cardJoins]
            joins_of_two_keys(1-4) [of k]
      by fastforce+
  qed
  have r: "joins ?r = joins ?c @ concat (map raceJoins [0..<length (getAll sp (js ''race''))])"
    by (rule race_joins_list) (rule fc)
  have fr: "set (attributeJoins k) \<inter> set (joins ?r) = {}"
           "set (typeJoins k) \<inter> set (joins ?r) = {}"
           "set (setcodeJoins k) \<inter> set (joins ?r) = {}" for k
    unfolding r by (rule disjoint_append, rule fc, rule joins_of_two_keys)+
  have a: "joins ?a = joins ?r @ concat (map attributeJoins [0..<length (getAll sp (js ''attribute''))])"
    by (rule attribute_joins_list) (rule fr)
  have fa: "set (typeJoins k) \<inter> set (joins ?a) = {}"
           "set (setcodeJoins k) \<inter> set (joins ?a) = {}" for k
    unfolding a by (rule disjoint_append, rule fr, rule joins_of_two_keys)+
  have t: "joins ?t = joins ?a @ concat (map typeJoins [0..<length (getAll sp (js ''type''))])"
    by (rule type_joins_list) (rule fa)
  have ft: "set (setcodeJoins k) \<inter> set (joins ?t) = {}" for k
    unfolding t by (rule disjoint_append, rule fa, rule joins_of_two_keys)
  have s: "joins ?s = joins ?t @ concat (map setcodeJoins [0..<length (getAll sp (js ''setcode''))])"
    by (rule setcode_joins_list) (rule ft)
  show ?thesis
    by (simp add: e s t a r c)
qed

lemma build_sql:
  "sql (buildSearchQuery dp sp True opts) =
     countSelect @ joinsText (applyFilters dp sp) @ whereText (applyFilters dp sp)"
  "sql (buildSearchQuery dp sp False opts) =
     dataSelect @ joinsText (applyFilters dp sp) @ whereText (applyFilters dp sp)
       @ orderByClause sp (case reverse opts of None \<Rightarrow> False | Some r \<Rightarrow> r)
       @ js '' LIMIT ? OFFSET ?''"
  by (simp_all add: buildSearchQuery_def Let_def)


text \<open>The built-ins on inputs outside ASCII and beyond \<open>2 ^ 53\<close>: a no-break space
  before the digits is skipped, a language code padded with one is trimmed, and
  \<open>2 ^ 53 + 1\<close> is read as \<open>2 ^ 53\<close>, so that \<^verbatim>\<open>start=9007199254740992\<close> with
  \<^verbatim>\<open>end=9007199254740993\<close> is an \<^verbatim>\<open>end\<close> that is not greater than \<^verbatim>\<open>start\<close>.\<close>

lemma parseInt_white_space:
  "parseInt (0xA0 # js ''5'') = Num 5"
  "parseInt (0x3000 # 0xFEFF # js ''-12px'') = Num (- 12)"
  "parseInt (js ''-0'') = NegZero"
  "parseInt (0x200B # js ''5'') = NaN"
  by code_simp+

lemma parseInt_rounds:
  "parseInt (js ''9007199254740993'') = Num 9007199254740992"
  "parseInt (js ''9007199254740995'') = Num 9007199254740996"
  "resolvePagination [(js ''start'', js ''9007199254740992''), (js ''end'', js ''9007199254740993'')] =
     Inl \<lparr>status = 400, payload = ErrorBody InvalidEnd\<rparr>"
  by code_simp+

lemma langsOf_trims:
  "langsOf [(js ''lang'', 0xA0 # js ''cn'')] = [js ''cn'']"
  "langsOf [(js ''lang'', js ''en ,xx, jp'')] = [js ''en'', js ''jp'']"
  "langsOf [(js ''lang'', [])] = [js ''cn'']"
  by code_simp+

lemma number_examples:
  "numMinus (Num 30) (Num 10) = Num 20"
  "numLessEqual (Num 30) (Num 10) = False"
  "numLess (Num 10) (Num 0) = False"
  "numLessEqual (Num 20) (Num 0) = False"
  "toNumber 20 = Num 20"
  by code_simp+

lemma concat_upt_nonempty:
  fixes n :: nat
  assumes "\<And>i. f i \<noteq> []" and "0 < n"
  shows "concat (map f [0..<n]) \<noteq> []"
proof -
  from assms(2) have "[0..<n] = 0 # [Suc 0..<n]" by (simp add: upt_rec)
  with assms(1) [of 0] show ?thesis by simp
qed

lemma joins_of_key_nonempty:
  "xs \<noteq> [] \<Longrightarrow> concat (map raceJoins [0..<length xs]) \<noteq> []"
  "xs \<noteq> [] \<Longrightarrow> concat (map attributeJoins [0..<length xs]) \<noteq> []"
  "xs \<noteq> [] \<Longrightarrow> concat (map typeJoins [0..<length xs]) \<noteq> []"
  "xs \<noteq> [] \<Longrightarrow> concat (map setcodeJoins [0..<length xs]) \<noteq> []"
  by (rule concat_upt_nonempty;
      simp add: raceJoins_def attributeJoins_def typeJoins_def setcodeJoins_def Let_def)+

section \<open>The claims\<close>

subsection \<open>C1: the data and the count statement\<close>

text \<open>
  Claim C1. For every set of request parameters, the data statement and the count
  statement carry the same join fragments and the same WHERE clause, with the same bound
  filter values in the same order: the two texts are the two projections followed by the
  same text, the data statement alone continues with ORDER BY, LIMIT and OFFSET, and its
  bound values are those of the count statement followed by the limit and the offset.
\<close>

theorem data_and_count_share_joins_and_where:
  "sql (buildSearchQuery dp sp False opts) =
     dataSelect @ joinsText (applyFilters dp sp) @ whereText (applyFilters dp sp)
       @ orderByClause sp (case reverse opts of None \<Rightarrow> False | Some r \<Rightarrow> r)
       @ js '' LIMIT ? OFFSET ?'' \<and>
   sql (buildSearchQuery dp sp True opts') =
     countSelect @ joinsText (applyFilters dp sp) @ whereText (applyFilters dp sp) \<and>
   drop (length dataSelect) (sql (buildSearchQuery dp sp False opts)) =
     drop (length countSelect) (sql (buildSearchQuery dp sp True opts'))
       @ orderByClause sp (case reverse opts of None \<Rightarrow> False | Some r \<Rightarrow> r)
       @ js '' LIMIT ? OFFSET ?'' \<and>
   params (buildSearchQuery dp sp True opts') = bindings (applyFilters dp sp) \<and>
   params (buildSearchQuery dp sp False opts) =
     params (buildSearchQuery dp sp True opts')
       @ [Number (case limit opts of None \<Rightarrow> Num 10 | Some l \<Rightarrow> l),
          Number (case offset opts of None \<Rightarrow> Num 0 | Some off \<Rightarrow> off)]"
  by (simp add: buildSearchQuery_def Let_def)

theorem data_and_count_share_joins_and_where_witness:
  "sql (buildSearchQuery noDates [(js ''deck_name'', js ''hero''), (js ''race'', js ''dragon'')] False
          \<lparr>limit = Some (Num 20), offset = Some (Num 40), reverse = Some True\<rparr>) =
     (js ''SELECT DISTINCT D.* FROM Decks AS D'')
     @ js '' JOIN DeckCards AS DC_race0 ON D.deck_id = DC_race0.deck_id JOIN CardToRace AS CTR_race0 ON DC_race0.card_id = CTR_race0.card_id JOIN Races AS R_race0 ON CTR_race0.race_code = R_race0.race_code''
     @ js '' WHERE D.deck_name LIKE ? AND R_race0.race_name LIKE ?''
     @ js '' ORDER BY D.deck_like ASC, D.update_date ASC'' @ js '' LIMIT ? OFFSET ?'' \<and>
   sql (buildSearchQuery noDates [(js ''deck_name'', js ''hero''), (js ''race'', js ''dragon'')] True
          noOptions) =
     (js ''SELECT COUNT(DISTINCT D.deck_id) FROM Decks AS D'')
     @ js '' JOIN DeckCards AS DC_race0 ON D.deck_id = DC_race0.deck_id JOIN CardToRace AS CTR_race0 ON DC_race0.card_id = CTR_race0.card_id JOIN Races AS R_race0 ON CTR_race0.race_code = R_race0.race_code''
     @ js '' WHERE D.deck_name LIKE ? AND R_race0.race_name LIKE ?'' \<and>
   params (buildSearchQuery noDates [(js ''deck_name'', js ''hero''), (js ''race'', js ''dragon'')] True
             noOptions) = [Str (js ''%hero%''), Str (js ''%dragon%'')] \<and>
   params (buildSearchQuery noDates [(js ''deck_name'', js ''hero''), (js ''race'', js ''dragon'')] False
             \<lparr>limit = Some (Num 20), offset = Some (Num 40), reverse = Some True\<rparr>) =
     [Str (js ''%hero%''), Str (js ''%dragon%''), Number (Num 20), Number (Num 40)]"
proof -
  let ?sp = "[(js ''deck_name'', js ''hero''), (js ''race'', js ''dragon'')]"
  note t = data_and_count_share_joins_and_where
             [of noDates ?sp "\<lparr>limit = Some (Num 20), offset = Some (Num 40), reverse = Some True\<rparr>" noOptions]
  have j: "joinsText (applyFilters noDates ?sp) =
     (js '' JOIN DeckCards AS DC_race0 ON D.deck_id = DC_race0.deck_id JOIN CardToRace AS CTR_race0 ON DC_race0.card_id = CTR_race0.card_id JOIN Races AS R_race0 ON CTR_race0.race_code = R_race0.race_code'')"
    by code_simp
  have w: "whereText (applyFilters noDates ?sp) =
     (js '' WHERE D.deck_name LIKE ? AND R_race0.race_name LIKE ?'')"
    by code_simp
  have b: "bindings (applyFilters noDates ?sp) = [Str (js ''%hero%''), Str (js ''%dragon%'')]"
    by code_simp
  have o: "orderByClause ?sp True = js '' ORDER BY D.deck_like ASC, D.update_date ASC''"
    by code_simp
  from t j w b o show ?thesis
    by (simp add: dataSelect_def countSelect_def)
qed

subsection \<open>C2: a card filter whose languages are all unknown\<close>

text \<open>
  As stated, C2 fails: for \<^verbatim>\<open>?lang=xx&card=foo\<close> no language is left, the guard on
  line 44 skips the whole card filter, and the compiled statement has no condition at all,
  so no \<^verbatim>\<open>card_text_desc\<close> match either.
\<close>

theorem card_filter_drops_description_match:
  "langsOf [(js ''lang'', js ''xx''), (js ''card'', js ''foo'')] = [] \<and>
   getAll [(js ''lang'', js ''xx''), (js ''card'', js ''foo'')] (js ''card'') = [js ''foo''] \<and>
   conditions (applyFilters noDates [(js ''lang'', js ''xx''), (js ''card'', js ''foo'')]) = [] \<and>
   buildSearchQuery noDates [(js ''lang'', js ''xx''), (js ''card'', js ''foo'')] False noOptions =
     \<lparr>sql = (js ''SELECT DISTINCT D.* FROM Decks AS D ORDER BY D.deck_like DESC, D.update_date DESC LIMIT ? OFFSET ?''),
        params = [Number (Num 10), Number (Num 0)]\<rparr>"
  by code_simp

text \<open>
  Claim C2, amended. For every request whose \<^verbatim>\<open>lang\<close> parameter leaves no allow-listed
  language and that carries at least one \<^verbatim>\<open>card\<close> parameter, the compiler (a total
  function) returns a statement, and the card filter contributes nothing to it: no
  language-name column, no \<^verbatim>\<open>card_text_desc\<close> condition, no join and no bound value.
  The accumulators pass the card filter unchanged, and the compiled statement is the one
  of the same request without its \<^verbatim>\<open>card\<close> parameters.
\<close>

theorem card_filter_without_languages:
  assumes "langsOf sp = []" and "getAll sp (js ''card'') \<noteq> []"
  shows "cardFilter sp st = st \<and>
         applyFilters dp sp = applyFilters dp (filter (\<lambda>kv. fst kv \<noteq> (js ''card'')) sp) \<and>
         buildSearchQuery dp sp isCount opts =
           buildSearchQuery dp (filter (\<lambda>kv. fst kv \<noteq> (js ''card'')) sp) isCount opts"
proof -
  let ?sp = "filter (\<lambda>kv. fst kv \<noteq> (js ''card'')) sp"
  have c: "cardFilter sp s = s" for s
    using assms(1) by (simp add: cardFilter_def Let_def)
  have c': "cardFilter ?sp s = s" for s
    by (simp add: cardFilter_def Let_def getAll_without)
  have a: "applyFilters dp sp = applyFilters dp ?sp"
    by (simp add: applyFilters_def Let_def c c' deckNameFilter_def categoricalFilters_def
          processMultiParamFilter_def rangeFilters_def rangeFilter_def
          get_without getAll_without has_without)
  have o: "orderByClause ?sp r = orderByClause sp r" for r
    by (simp add: orderByClause_def getOr_def get_without)
  from a o c show ?thesis
    by (simp add: buildSearchQuery_def Let_def)
qed

theorem card_filter_without_languages_witness:
  "buildSearchQuery noDates [(js ''lang'', js ''xx''), (js ''card'', js ''foo''), (js ''race'', js ''dragon'')]
     True noOptions =
   buildSearchQuery noDates [(js ''lang'', js ''xx''), (js ''race'', js ''dragon'')] True noOptions \<and>
   sql (buildSearchQuery noDates [(js ''lang'', js ''xx''), (js ''race'', js ''dragon'')] True noOptions) =
     (js ''SELECT COUNT(DISTINCT D.deck_id) FROM Decks AS D JOIN DeckCards AS DC_race0 ON D.deck_id = DC_race0.deck_id JOIN CardToRace AS CTR_race0 ON DC_race0.card_id = CTR_race0.card_id JOIN Races AS R_race0 ON CTR_race0.race_code = R_race0.race_code WHERE R_race0.race_name LIKE ?'')"
proof -
  have l: "langsOf [(js ''lang'', js ''xx''), (js ''card'', js ''foo''), (js ''race'', js ''dragon'')] = []"
    by code_simp
  have g: "getAll [(js ''lang'', js ''xx''), (js ''card'', js ''foo''), (js ''race'', js ''dragon'')] (js ''card'') \<noteq> []"
    by code_simp
  have f: "filter (\<lambda>kv. fst kv \<noteq> (js ''card''))
             [(js ''lang'', js ''xx''), (js ''card'', js ''foo''), (js ''race'', js ''dragon'')]
           = [(js ''lang'', js ''xx''), (js ''race'', js ''dragon'')]"
    by simp
  have s: "sql (buildSearchQuery noDates [(js ''lang'', js ''xx''), (js ''race'', js ''dragon'')] True
                  noOptions) =
     (js ''SELECT COUNT(DISTINCT D.deck_id) FROM Decks AS D JOIN DeckCards AS DC_race0 ON D.deck_id = DC_race0.deck_id JOIN CardToRace AS CTR_race0 ON DC_race0.card_id = CTR_race0.card_id JOIN Races AS R_race0 ON CTR_race0.race_code = R_race0.race_code WHERE R_race0.race_name LIKE ?'')"
    by code_simp
  from card_filter_without_languages [OF l g, of _ noDates True noOptions] f s
  show ?thesis by simp
qed

subsection \<open>C3: malformed range parameters\<close>

text \<open>
  As stated, C3 fails: the request \<^verbatim>\<open>?likes_ge=abc\<close> carries a range value that
  \<^verbatim>\<open>parseInt\<close> cannot read, and the handler answers it with status 200 after one batch
  call whose two statements bind \<^verbatim>\<open>NaN\<close>: the database, which had answered no call
  and had an empty journal, has answered one and its journal holds the two statements.
\<close>

theorem malformed_range_reaches_storage:
  "parseInt (js ''abc'') = NaN \<and>
   handleSearchRequest noDates (journaled (answering [] 0)) [(js ''likes_ge'', js ''abc'')]
     (0, []) =
     (\<lparr>status = 200, payload = DataBody (JNumber (Num 0)) (Num 0) 0 []\<rparr>,
      (Suc 0,
       [[\<lparr>sql = js ''SELECT DISTINCT D.* FROM Decks AS D WHERE D.deck_like >= ? ORDER BY D.deck_like DESC, D.update_date DESC LIMIT ? OFFSET ?'',
           params = [Number NaN, Number (Num 10), Number (Num 0)]\<rparr>,
         \<lparr>sql = js ''SELECT COUNT(DISTINCT D.deck_id) FROM Decks AS D WHERE D.deck_like >= ?'',
           params = [Number NaN]\<rparr>]]))"
  by code_simp

text \<open>
  Claim C3, amended. The range parameters are not validated. For every request whose
  pagination is valid and that carries a malformed range parameter (a \<^verbatim>\<open>likes_ge\<close> or
  \<^verbatim>\<open>likes_le\<close> that \<^verbatim>\<open>parseInt\<close> reads as \<^verbatim>\<open>NaN\<close>, an \<^verbatim>\<open>after_date\<close> or
  \<^verbatim>\<open>before_date\<close> for which \<^verbatim>\<open>Date.parse\<close> gives no time value), the handler
  makes one batch call (a database that keeps a journal ends with exactly one entry), both
  statements of which bind \<^verbatim>\<open>NaN\<close>, and the status of the response is not 400.
\<close>

theorem malformed_range_not_validated:
  assumes "resolvePagination sp = Inr (lim, off)"
    and "(get sp (js ''likes_ge'') = Some v \<and> parseInt v = NaN)
         \<or> (get sp (js ''likes_le'') = Some v \<and> parseInt v = NaN)
         \<or> (get sp (js ''after_date'') = Some v \<and> timeClip (dp v) = None)
         \<or> (get sp (js ''before_date'') = Some v \<and> timeClip (dp v) = None)"
  shows "status (fst (handleSearchRequest dp batch sp db)) \<noteq> 400 \<and>
         (\<exists>dataQuery countQuery.
            snd (snd (handleSearchRequest dp (journaled batch) sp (db, []))) =
              [[dataQuery, countQuery]] \<and>
            Number NaN \<in> set (params dataQuery) \<and> Number NaN \<in> set (params countQuery))"
proof -
  obtain pre where "bindings (applyFilters dp sp) = pre
     @ (case get sp (js ''likes_ge'') of None \<Rightarrow> [] | Some v \<Rightarrow> [Number (parseInt v)])
     @ (case get sp (js ''likes_le'') of None \<Rightarrow> [] | Some v \<Rightarrow> [Number (parseInt v)])
     @ (case get sp (js ''after_date'') of None \<Rightarrow> []
        | Some v \<Rightarrow> [Number (floorSeconds (dp v))])
     @ (case get sp (js ''before_date'') of None \<Rightarrow> []
        | Some v \<Rightarrow> [Number (floorSeconds (dp v))])"
    using applyFilters_range_bindings by blast
  with assms(2) have nan: "Number NaN \<in> set (bindings (applyFilters dp sp))"
    by (auto simp add: floorSeconds_def)
  from handler_status [OF assms(1), of dp batch db]
  have "status (fst (handleSearchRequest dp batch sp db)) \<noteq> 400" by auto
  with nan handler_journal [OF assms(1), of dp batch db "[]"] show ?thesis
    by (simp add: build_params)
qed

theorem malformed_range_not_validated_witness:
  "status (fst (handleSearchRequest noDates (answering [] 0)
                  [(js ''likes_ge'', js ''many''), (js ''after_date'', js ''soon'')] 0)) = 200 \<and>
   (\<exists>dataQuery countQuery.
      snd (snd (handleSearchRequest noDates (journaled (answering [] 0))
                  [(js ''likes_ge'', js ''many''), (js ''after_date'', js ''soon'')] (0, []))) =
        [[dataQuery, countQuery]] \<and>
      Number NaN \<in> set (params dataQuery) \<and> Number NaN \<in> set (params countQuery))"
proof -
  let ?sp = "[(js ''likes_ge'', js ''many''), (js ''after_date'', js ''soon'')]"
  have p: "resolvePagination ?sp = Inr (Num 10, Num 0)"
    by code_simp
  have m: "get ?sp (js ''likes_ge'') = Some (js ''many'') \<and> parseInt (js ''many'') = NaN"
    by code_simp
  have s: "status (fst (handleSearchRequest noDates (answering [] 0) ?sp 0)) = 200"
    by code_simp
  from malformed_range_not_validated [OF p, of "js ''many''" noDates "answering [] 0" 0] m s
  show ?thesis by blast
qed

subsection \<open>C4: repeated categorical filters\<close>

text \<open>
  Claim C4. A categorical key (\<^verbatim>\<open>race\<close>, \<^verbatim>\<open>attribute\<close>, \<^verbatim>\<open>type\<close>, \<^verbatim>\<open>setcode\<close>)
  that occurs N times contributes N LIKE conditions, one for each occurrence, under the
  alias made of the key and the index of the occurrence. The conditions of the statement
  are those of the deck name and card filters, then these, key by key, then those of the
  range filters. The join set never merges two fragments: the joins of the statement
  are those of the card filter followed by the three joins of every occurrence of every
  key, each under the alias of its occurrence, and the aliases of all the occurrences of
  all four keys are pairwise distinct. When a categorical key occurs, the text of the
  count statement is the count projection, a space, all these joins separated by spaces,
  \<^verbatim>\<open> WHERE \<close> and all the conditions joined with \<^verbatim>\<open> AND \<close>; the text of the data
  statement is the data projection followed by the same joins and the same WHERE clause,
  then ORDER BY, LIMIT and OFFSET.
\<close>

theorem repeated_categorical_filters:
  "conditions (applyFilters dp sp) =
     conditions (cardFilter sp (deckNameFilter sp emptyState))
     @ map (\<lambda>i. js ''R_'' @ aliasOf (js ''race'') i @ js ''.race_name LIKE ?'')
         [0..<length (getAll sp (js ''race''))]
     @ map (\<lambda>i. js ''A_'' @ aliasOf (js ''attribute'') i @ js ''.attribute_name LIKE ?'')
         [0..<length (getAll sp (js ''attribute''))]
     @ map (\<lambda>i. js ''CT_'' @ aliasOf (js ''type'') i @ js ''.type_name LIKE ?'')
         [0..<length (getAll sp (js ''type''))]
     @ map (\<lambda>i. js ''S_'' @ aliasOf (js ''setcode'') i @ js ''.set_name_cn LIKE ?'')
         [0..<length (getAll sp (js ''setcode''))]
     @ conditions (rangeFilters dp sp emptyState) \<and>
   joins (applyFilters dp sp) =
     joins (cardFilter sp (deckNameFilter sp emptyState))
     @ concat (map raceJoins [0..<length (getAll sp (js ''race''))])
     @ concat (map attributeJoins [0..<length (getAll sp (js ''attribute''))])
     @ concat (map typeJoins [0..<length (getAll sp (js ''type''))])
     @ concat (map setcodeJoins [0..<length (getAll sp (js ''setcode''))]) \<and>
   (getAll sp (js ''race'') \<noteq> [] \<or> getAll sp (js ''attribute'') \<noteq> [] \<or> getAll sp (js ''type'') \<noteq> []
      \<or> getAll sp (js ''setcode'') \<noteq> [] \<longrightarrow>
    joinsText (applyFilters dp sp) =
      js '' '' @ joinWith (js '' '') (joins (applyFilters dp sp)) \<and>
    whereText (applyFilters dp sp) =
      js '' WHERE '' @ joinWith (js '' AND '') (conditions (applyFilters dp sp)) \<and>
    sql (buildSearchQuery dp sp True opts) =
      js ''SELECT COUNT(DISTINCT D.deck_id) FROM Decks AS D''
        @ js '' '' @ joinWith (js '' '') (joins (applyFilters dp sp))
        @ js '' WHERE '' @ joinWith (js '' AND '') (conditions (applyFilters dp sp)) \<and>
    sql (buildSearchQuery dp sp False opts) =
      js ''SELECT DISTINCT D.* FROM Decks AS D''
        @ js '' '' @ joinWith (js '' '') (joins (applyFilters dp sp))
        @ js '' WHERE '' @ joinWith (js '' AND '') (conditions (applyFilters dp sp))
        @ orderByClause sp (case reverse opts of None \<Rightarrow> False | Some r \<Rightarrow> r)
        @ js '' LIMIT ? OFFSET ?'') \<and>
   distinct (map (aliasOf (js ''race'')) [0..<length (getAll sp (js ''race''))]
             @ map (aliasOf (js ''attribute'')) [0..<length (getAll sp (js ''attribute''))]
             @ map (aliasOf (js ''type'')) [0..<length (getAll sp (js ''type''))]
             @ map (aliasOf (js ''setcode'')) [0..<length (getAll sp (js ''setcode''))]) \<and>
   (\<forall>i. aliasOf (js ''race'') i = js ''race'' @ showNat i \<and>
        aliasOf (js ''attribute'') i = js ''attribute'' @ showNat i \<and>
        aliasOf (js ''type'') i = js ''type'' @ showNat i \<and>
        aliasOf (js ''setcode'') i = js ''setcode'' @ showNat i)"
proof -
  have j: "joins (applyFilters dp sp) =
     joins (cardFilter sp (deckNameFilter sp emptyState))
     @ concat (map raceJoins [0..<length (getAll sp (js ''race''))])
     @ concat (map attributeJoins [0..<length (getAll sp (js ''attribute''))])
     @ concat (map typeJoins [0..<length (getAll sp (js ''type''))])
     @ concat (map setcodeJoins [0..<length (getAll sp (js ''setcode''))])"
    by (simp only: applyFilters_joins_list card_joins_list)
  have t: "joinsText (applyFilters dp sp) =
             js '' '' @ joinWith (js '' '') (joins (applyFilters dp sp)) \<and>
           whereText (applyFilters dp sp) =
             js '' WHERE '' @ joinWith (js '' AND '') (conditions (applyFilters dp sp))"
    if h: "getAll sp (js ''race'') \<noteq> [] \<or> getAll sp (js ''attribute'') \<noteq> []
             \<or> getAll sp (js ''type'') \<noteq> [] \<or> getAll sp (js ''setcode'') \<noteq> []"
  proof -
    from h have c: "conditions (applyFilters dp sp) \<noteq> []"
      by (subst applyFilters_conditions) auto
    have e: "joins (applyFilters dp sp) \<noteq> []" if "b \<noteq> []"
      and "joins (applyFilters dp sp) = a @ b @ c" for a b c :: "jsString list"
      using that by simp
    from h have "joins (applyFilters dp sp) \<noteq> []"
    proof (elim disjE)
      assume "getAll sp (js ''race'') \<noteq> []"
      from joins_of_key_nonempty(1) [OF this] show ?thesis
        by (rule e [where a = "joins (cardFilter sp (deckNameFilter sp emptyState))"])
           (simp only: j append_assoc append_Nil2)
    next
      assume "getAll sp (js ''attribute'') \<noteq> []"
      from joins_of_key_nonempty(2) [OF this] show ?thesis
        by (rule e [where a = "joins (cardFilter sp (deckNameFilter sp emptyState))
                                 @ concat (map raceJoins [0..<length (getAll sp (js ''race''))])"])
           (simp only: j append_assoc append_Nil2)
    next
      assume "getAll sp (js ''type'') \<noteq> []"
      from joins_of_key_nonempty(3) [OF this] show ?thesis
        by (rule e [where a = "joins (cardFilter sp (deckNameFilter sp emptyState))
                                 @ concat (map raceJoins [0..<length (getAll sp (js ''race''))])
                                 @ concat (map attributeJoins [0..<length (getAll sp (js ''attribute''))])"])
           (simp only: j append_assoc append_Nil2)
    next
      assume "getAll sp (js ''setcode'') \<noteq> []"
      from joins_of_key_nonempty(4) [OF this] show ?thesis
        by (rule e [where a = "joins (cardFilter sp (deckNameFilter sp emptyState))
                                 @ concat (map raceJoins [0..<length (getAll sp (js ''race''))])
                                 @ concat (map attributeJoins [0..<length (getAll sp (js ''attribute''))])
                                 @ concat (map typeJoins [0..<length (getAll sp (js ''type''))])"
                      and c = "[]"])
           (simp only: j append_assoc append_Nil2)
    qed
    with c show ?thesis by (simp only: joinsText_def whereText_def length_greater_0_conv if_True simp_thms)
  qed
  have s: "sql (buildSearchQuery dp sp True opts) =
      js ''SELECT COUNT(DISTINCT D.deck_id) FROM Decks AS D''
        @ js '' '' @ joinWith (js '' '') (joins (applyFilters dp sp))
        @ js '' WHERE '' @ joinWith (js '' AND '') (conditions (applyFilters dp sp)) \<and>
    sql (buildSearchQuery dp sp False opts) =
      js ''SELECT DISTINCT D.* FROM Decks AS D''
        @ js '' '' @ joinWith (js '' '') (joins (applyFilters dp sp))
        @ js '' WHERE '' @ joinWith (js '' AND '') (conditions (applyFilters dp sp))
        @ orderByClause sp (case reverse opts of None \<Rightarrow> False | Some r \<Rightarrow> r)
        @ js '' LIMIT ? OFFSET ?''"
    if h: "getAll sp (js ''race'') \<noteq> [] \<or> getAll sp (js ''attribute'') \<noteq> []
             \<or> getAll sp (js ''type'') \<noteq> [] \<or> getAll sp (js ''setcode'') \<noteq> []"
    unfolding build_sql countSelect_def dataSelect_def
    by (simp only: t [OF h] append_assoc simp_thms)
  show ?thesis
    apply (intro conjI)
        apply (rule applyFilters_conditions)
       apply (rule j)
      apply (rule impI)
      apply (intro conjI)
         apply (erule t [THEN conjunct1])
        apply (erule t [THEN conjunct2])
       apply (erule s [THEN conjunct1])
      apply (erule s [THEN conjunct2])
     apply (rule aliases_distinct)
    apply (simp add: alias_text)
    done
qed

theorem repeated_categorical_filters_witness:
  "conditions (applyFilters noDates
                 [(js ''race'', js ''dragon''), (js ''type'', js ''spell''), (js ''race'', js ''warrior'')]) =
     [js ''R_race0.race_name LIKE ?'', js ''R_race1.race_name LIKE ?'', js ''CT_type0.type_name LIKE ?''] \<and>
   joins (applyFilters noDates
            [(js ''race'', js ''dragon''), (js ''type'', js ''spell''), (js ''race'', js ''warrior'')]) =
     [js ''JOIN DeckCards AS DC_race0 ON D.deck_id = DC_race0.deck_id'',
      js ''JOIN CardToRace AS CTR_race0 ON DC_race0.card_id = CTR_race0.card_id'',
      js ''JOIN Races AS R_race0 ON CTR_race0.race_code = R_race0.race_code'',
      js ''JOIN DeckCards AS DC_race1 ON D.deck_id = DC_race1.deck_id'',
      js ''JOIN CardToRace AS CTR_race1 ON DC_race1.card_id = CTR_race1.card_id'',
      js ''JOIN Races AS R_race1 ON CTR_race1.race_code = R_race1.race_code'',
      js ''JOIN DeckCards AS DC_type0 ON D.deck_id = DC_type0.deck_id'',
      js ''JOIN CardToType AS CTT_type0 ON DC_type0.card_id = CTT_type0.card_id'',
      js ''JOIN CardTypes AS CT_type0 ON CTT_type0.type_code = CT_type0.type_code''] \<and>
   sql (buildSearchQuery noDates
          [(js ''race'', js ''dragon''), (js ''type'', js ''spell''), (js ''race'', js ''warrior'')]
          True noOptions) =
     js ''SELECT COUNT(DISTINCT D.deck_id) FROM Decks AS D JOIN DeckCards AS DC_race0 ON D.deck_id = DC_race0.deck_id JOIN CardToRace AS CTR_race0 ON DC_race0.card_id = CTR_race0.card_id JOIN Races AS R_race0 ON CTR_race0.race_code = R_race0.race_code JOIN DeckCards AS DC_race1 ON D.deck_id = DC_race1.deck_id JOIN CardToRace AS CTR_race1 ON DC_race1.card_id = CTR_race1.card_id JOIN Races AS R_race1 ON CTR_race1.race_code = R_race1.race_code JOIN DeckCards AS DC_type0 ON D.deck_id = DC_type0.deck_id JOIN CardToType AS CTT_type0 ON DC_type0.card_id = CTT_type0.card_id JOIN CardTypes AS CT_type0 ON CTT_type0.type_code = CT_type0.type_code WHERE R_race0.race_name LIKE ? AND R_race1.race_name LIKE ? AND CT_type0.type_name LIKE ?'' \<and>
   sql (buildSearchQuery noDates
          [(js ''race'', js ''dragon''), (js ''type'', js ''spell''), (js ''race'', js ''warrior'')]
          False noOptions) =
     js ''SELECT DISTINCT D.* FROM Decks AS D JOIN DeckCards AS DC_race0 ON D.deck_id = DC_race0.deck_id JOIN CardToRace AS CTR_race0 ON DC_race0.card_id = CTR_race0.card_id JOIN Races AS R_race0 ON CTR_race0.race_code = R_race0.race_code JOIN DeckCards AS DC_race1 ON D.deck_id = DC_race1.deck_id JOIN CardToRace AS CTR_race1 ON DC_race1.card_id = CTR_race1.card_id JOIN Races AS R_race1 ON CTR_race1.race_code = R_race1.race_code JOIN DeckCards AS DC_type0 ON D.deck_id = DC_type0.deck_id JOIN CardToType AS CTT_type0 ON DC_type0.card_id = CTT_type0.card_id JOIN CardTypes AS CT_type0 ON CTT_type0.type_code = CT_type0.type_code WHERE R_race0.race_name LIKE ? AND R_race1.race_name LIKE ? AND CT_type0.type_name LIKE ? ORDER BY D.deck_like DESC, D.update_date DESC LIMIT ? OFFSET ?'' \<and>
   distinct [js ''race0'', js ''race1'', js ''type0'']"
proof -
  let ?sp = "[(js ''race'', js ''dragon''), (js ''type'', js ''spell''), (js ''race'', js ''warrior'')]"
  note t = repeated_categorical_filters [of noDates ?sp noOptions]
  have n: "getAll ?sp (js ''race'') = [js ''dragon'', js ''warrior'']" "getAll ?sp (js ''type'') = [js ''spell'']"
          "getAll ?sp (js ''attribute'') = []" "getAll ?sp (js ''setcode'') = []"
    by code_simp+
  have a: "aliasOf (js ''race'') 0 = js ''race0''" "aliasOf (js ''race'') (Suc 0) = js ''race1''"
          "aliasOf (js ''type'') 0 = js ''type0''"
    by code_simp+
  have pre: "conditions (cardFilter ?sp (deckNameFilter ?sp emptyState)) = []"
            "conditions (rangeFilters noDates ?sp emptyState) = []"
            "joins (cardFilter ?sp (deckNameFilter ?sp emptyState)) = []"
    by code_simp+
  have u: "[0..<2] = [0, Suc 0]" by code_simp
  have js: "raceJoins 0 =
              [js ''JOIN DeckCards AS DC_race0 ON D.deck_id = DC_race0.deck_id'',
               js ''JOIN CardToRace AS CTR_race0 ON DC_race0.card_id = CTR_race0.card_id'',
               js ''JOIN Races AS R_race0 ON CTR_race0.race_code = R_race0.race_code'']"
            "raceJoins (Suc 0) =
              [js ''JOIN DeckCards AS DC_race1 ON D.deck_id = DC_race1.deck_id'',
               js ''JOIN CardToRace AS CTR_race1 ON DC_race1.card_id = CTR_race1.card_id'',
               js ''JOIN Races AS R_race1 ON CTR_race1.race_code = R_race1.race_code'']"
            "typeJoins 0 =
              [js ''JOIN DeckCards AS DC_type0 ON D.deck_id = DC_type0.deck_id'',
               js ''JOIN CardToType AS CTT_type0 ON DC_type0.card_id = CTT_type0.card_id'',
               js ''JOIN CardTypes AS CT_type0 ON CTT_type0.type_code = CT_type0.type_code'']"
    by code_simp+
  have c: "conditions (applyFilters noDates ?sp) =
     [js ''R_race0.race_name LIKE ?'', js ''R_race1.race_name LIKE ?'', js ''CT_type0.type_name LIKE ?'']"
    by (subst t [THEN conjunct1]) (simp add: n a pre u js_append)
  have j: "joins (applyFilters noDates ?sp) =
     [js ''JOIN DeckCards AS DC_race0 ON D.deck_id = DC_race0.deck_id'',
      js ''JOIN CardToRace AS CTR_race0 ON DC_race0.card_id = CTR_race0.card_id'',
      js ''JOIN Races AS R_race0 ON CTR_race0.race_code = R_race0.race_code'',
      js ''JOIN DeckCards AS DC_race1 ON D.deck_id = DC_race1.deck_id'',
      js ''JOIN CardToRace AS CTR_race1 ON DC_race1.card_id = CTR_race1.card_id'',
      js ''JOIN Races AS R_race1 ON CTR_race1.race_code = R_race1.race_code'',
      js ''JOIN DeckCards AS DC_type0 ON D.deck_id = DC_type0.deck_id'',
      js ''JOIN CardToType AS CTT_type0 ON DC_type0.card_id = CTT_type0.card_id'',
      js ''JOIN CardTypes AS CT_type0 ON CTT_type0.type_code = CT_type0.type_code'']"
    by (subst t [THEN conjunct2, THEN conjunct1]) (simp add: n pre u js)
  have k: "getAll ?sp (js ''race'') \<noteq> [] \<or> getAll ?sp (js ''attribute'') \<noteq> []
             \<or> getAll ?sp (js ''type'') \<noteq> [] \<or> getAll ?sp (js ''setcode'') \<noteq> []"
    by (simp add: n)
  note m = t [THEN conjunct2, THEN conjunct2, THEN conjunct1, THEN mp, OF k]
  have o: "orderByClause ?sp (case reverse noOptions of None \<Rightarrow> False | Some r \<Rightarrow> r) =
             js '' ORDER BY D.deck_like DESC, D.update_date DESC''"
    by code_simp
  have ec: "js ''SELECT COUNT(DISTINCT D.deck_id) FROM Decks AS D''
        @ js '' '' @ joinWith (js '' '')
           [js ''JOIN DeckCards AS DC_race0 ON D.deck_id = DC_race0.deck_id'',
            js ''JOIN CardToRace AS CTR_race0 ON DC_race0.card_id = CTR_race0.card_id'',
            js ''JOIN Races AS R_race0 ON CTR_race0.race_code = R_race0.race_code'',
            js ''JOIN DeckCards AS DC_race1 ON D.deck_id = DC_race1.deck_id'',
            js ''JOIN CardToRace AS CTR_race1 ON DC_race1.card_id = CTR_race1.card_id'',
            js ''JOIN Races AS R_race1 ON CTR_race1.race_code = R_race1.race_code'',
            js ''JOIN DeckCards AS DC_type0 ON D.deck_id = DC_type0.deck_id'',
            js ''JOIN CardToType AS CTT_type0 ON DC_type0.card_id = CTT_type0.card_id'',
            js ''JOIN CardTypes AS CT_type0 ON CTT_type0.type_code = CT_type0.type_code'']
        @ js '' WHERE '' @ joinWith (js '' AND '')
           [js ''R_race0.race_name LIKE ?'', js ''R_race1.race_name LIKE ?'', js ''CT_type0.type_name LIKE ?''] =
     js ''SELECT COUNT(DISTINCT D.deck_id) FROM Decks AS D JOIN DeckCards AS DC_race0 ON D.deck_id = DC_race0.deck_id JOIN CardToRace AS CTR_race0 ON DC_race0.card_id = CTR_race0.card_id JOIN Races AS R_race0 ON CTR_race0.race_code = R_race0.race_code JOIN DeckCards AS DC_race1 ON D.deck_id = DC_race1.deck_id JOIN CardToRace AS CTR_race1 ON DC_race1.card_id = CTR_race1.card_id JOIN Races AS R_race1 ON CTR_race1.race_code = R_race1.race_code JOIN DeckCards AS DC_type0 ON D.deck_id = DC_type0.deck_id JOIN CardToType AS CTT_type0 ON DC_type0.card_id = CTT_type0.card_id JOIN CardTypes AS CT_type0 ON CTT_type0.type_code = CT_type0.type_code WHERE R_race0.race_name LIKE ? AND R_race1.race_name LIKE ? AND CT_type0.type_name LIKE ?''"
    by code_simp
  have ed: "js ''SELECT DISTINCT D.* FROM Decks AS D''
        @ js '' '' @ joinWith (js '' '')
           [js ''JOIN DeckCards AS DC_race0 ON D.deck_id = DC_race0.deck_id'',
            js ''JOIN CardToRace AS CTR_race0 ON DC_race0.card_id = CTR_race0.card_id'',
            js ''JOIN Races AS R_race0 ON CTR_race0.race_code = R_race0.race_code'',
            js ''JOIN DeckCards AS DC_race1 ON D.deck_id = DC_race1.deck_id'',
            js ''JOIN CardToRace AS CTR_race1 ON DC_race1.card_id = CTR_race1.card_id'',
            js ''JOIN Races AS R_race1 ON CTR_race1.race_code = R_race1.race_code'',
            js ''JOIN DeckCards AS DC_type0 ON D.deck_id = DC_type0.deck_id'',
            js ''JOIN CardToType AS CTT_type0 ON DC_type0.card_id = CTT_type0.card_id'',
            js ''JOIN CardTypes AS CT_type0 ON CTT_type0.type_code = CT_type0.type_code'']
        @ js '' WHERE '' @ joinWith (js '' AND '')
           [js ''R_race0.race_name LIKE ?'', js ''R_race1.race_name LIKE ?'', js ''CT_type0.type_name LIKE ?'']
        @ js '' ORDER BY D.deck_like DESC, D.update_date DESC''
        @ js '' LIMIT ? OFFSET ?'' =
     js ''SELECT DISTINCT D.* FROM Decks AS D JOIN DeckCards AS DC_race0 ON D.deck_id = DC_race0.deck_id JOIN CardToRace AS CTR_race0 ON DC_race0.card_id = CTR_race0.card_id JOIN Races AS R_race0 ON CTR_race0.race_code = R_race0.race_code JOIN DeckCards AS DC_race1 ON D.deck_id = DC_race1.deck_id JOIN CardToRace AS CTR_race1 ON DC_race1.card_id = CTR_race1.card_id JOIN Races AS R_race1 ON CTR_race1.race_code = R_race1.race_code JOIN DeckCards AS DC_type0 ON D.deck_id = DC_type0.deck_id JOIN CardToType AS CTT_type0 ON DC_type0.card_id = CTT_type0.card_id JOIN CardTypes AS CT_type0 ON CTT_type0.type_code = CT_type0.type_code WHERE R_race0.race_name LIKE ? AND R_race1.race_name LIKE ? AND CT_type0.type_name LIKE ? ORDER BY D.deck_like DESC, D.update_date DESC LIMIT ? OFFSET ?''"
    by code_simp
  have sc: "sql (buildSearchQuery noDates ?sp True noOptions) =
     js ''SELECT COUNT(DISTINCT D.deck_id) FROM Decks AS D JOIN DeckCards AS DC_race0 ON D.deck_id = DC_race0.deck_id JOIN CardToRace AS CTR_race0 ON DC_race0.card_id = CTR_race0.card_id JOIN Races AS R_race0 ON CTR_race0.race_code = R_race0.race_code JOIN DeckCards AS DC_race1 ON D.deck_id = DC_race1.deck_id JOIN CardToRace AS CTR_race1 ON DC_race1.card_id = CTR_race1.card_id JOIN Races AS R_race1 ON CTR_race1.race_code = R_race1.race_code JOIN DeckCards AS DC_type0 ON D.deck_id = DC_type0.deck_id JOIN CardToType AS CTT_type0 ON DC_type0.card_id = CTT_type0.card_id JOIN CardTypes AS CT_type0 ON CTT_type0.type_code = CT_type0.type_code WHERE R_race0.race_name LIKE ? AND R_race1.race_name LIKE ? AND CT_type0.type_name LIKE ?''"
    by (rule trans [OF m [THEN conjunct2, THEN conjunct2, THEN conjunct1, unfolded j c] ec])
  have sd: "sql (buildSearchQuery noDates ?sp False noOptions) =
     js ''SELECT DISTINCT D.* FROM Decks AS D JOIN DeckCards AS DC_race0 ON D.deck_id = DC_race0.deck_id JOIN CardToRace AS CTR_race0 ON DC_race0.card_id = CTR_race0.card_id JOIN Races AS R_race0 ON CTR_race0.race_code = R_race0.race_code JOIN DeckCards AS DC_race1 ON D.deck_id = DC_race1.deck_id JOIN CardToRace AS CTR_race1 ON DC_race1.card_id = CTR_race1.card_id JOIN Races AS R_race1 ON CTR_race1.race_code = R_race1.race_code JOIN DeckCards AS DC_type0 ON D.deck_id = DC_type0.deck_id JOIN CardToType AS CTT_type0 ON DC_type0.card_id = CTT_type0.card_id JOIN CardTypes AS CT_type0 ON CTT_type0.type_code = CT_type0.type_code WHERE R_race0.race_name LIKE ? AND R_race1.race_name LIKE ? AND CT_type0.type_name LIKE ? ORDER BY D.deck_like DESC, D.update_date DESC LIMIT ? OFFSET ?''"
    by (rule trans [OF m [THEN conjunct2, THEN conjunct2, THEN conjunct2, unfolded j c o] ed])
  note t [THEN conjunct2, THEN conjunct2, THEN conjunct2, THEN conjunct1]
  then have "distinct (map (aliasOf (js ''race'')) [0..<length (getAll ?sp (js ''race''))]
             @ map (aliasOf (js ''attribute'')) [0..<length (getAll ?sp (js ''attribute''))]
             @ map (aliasOf (js ''type'')) [0..<length (getAll ?sp (js ''type''))]
             @ map (aliasOf (js ''setcode'')) [0..<length (getAll ?sp (js ''setcode''))])" .
  then have d: "distinct [js ''race0'', js ''race1'', js ''type0'']"
    by (simp add: n a u)
  from c j sc sd d show ?thesis by (intro conjI)
qed

subsection \<open>C5: the pagination examples\<close>

text \<open>
  Claim C5. With \<^verbatim>\<open>start=10\<close> and \<^verbatim>\<open>end=30\<close> the limit is 20 and the offset 10; with
  \<^verbatim>\<open>start=0\<close> and \<^verbatim>\<open>size=20\<close> (and no \<^verbatim>\<open>end\<close>) the limit is 20 and the offset 0;
  with no pagination parameter the limit is 10 and the offset 0. In each case the
  handler's one batch call carries the data statement compiled with that limit and
  offset.
\<close>

theorem pagination_examples:
  "(get sp (js ''start'') = Some (js ''10'') \<and> get sp (js ''end'') = Some (js ''30'') \<longrightarrow>
      resolvePagination sp = Inr (Num 20, Num 10) \<and>
      snd (snd (handleSearchRequest dp (journaled batch) sp (db, []))) =
        [[buildSearchQuery dp sp False
            \<lparr>limit = Some (Num 20), offset = Some (Num 10),
               reverse = Some (get sp (js ''reverse'') = Some (js ''true''))\<rparr>,
          buildSearchQuery dp sp True noOptions]]) \<and>
   (get sp (js ''start'') = Some (js ''0'') \<and> get sp (js ''end'') = None
      \<and> get sp (js ''size'') = Some (js ''20'') \<longrightarrow>
      resolvePagination sp = Inr (Num 20, Num 0) \<and>
      snd (snd (handleSearchRequest dp (journaled batch) sp (db, []))) =
        [[buildSearchQuery dp sp False
            \<lparr>limit = Some (Num 20), offset = Some (Num 0),
               reverse = Some (get sp (js ''reverse'') = Some (js ''true''))\<rparr>,
          buildSearchQuery dp sp True noOptions]]) \<and>
   (get sp (js ''start'') = None \<and> get sp (js ''end'') = None \<and> get sp (js ''size'') = None \<longrightarrow>
      resolvePagination sp = Inr (Num 10, Num 0) \<and>
      snd (snd (handleSearchRequest dp (journaled batch) sp (db, []))) =
        [[buildSearchQuery dp sp False
            \<lparr>limit = Some (Num 10), offset = Some (Num 0),
               reverse = Some (get sp (js ''reverse'') = Some (js ''true''))\<rparr>,
          buildSearchQuery dp sp True noOptions]])"
proof -
  have a: "resolvePagination sp = Inr (Num 20, Num 10)"
    if "get sp (js ''start'') = Some (js ''10'')" "get sp (js ''end'') = Some (js ''30'')"
    using that
    by (simp add: resolvePagination_def parseInt_examples Let_def numLess_def numLessEqual_def
          number_examples)
  have b: "resolvePagination sp = Inr (Num 20, Num 0)"
    if "get sp (js ''start'') = Some (js ''0'')" "get sp (js ''end'') = None"
       "get sp (js ''size'') = Some (js ''20'')"
    using that
    by (simp add: resolvePagination_def parseInt_examples Let_def numLess_def numLessEqual_def)
  have c: "resolvePagination sp = Inr (Num 10, Num 0)" if "get sp (js ''start'') = None"
    using that by (simp add: resolvePagination_def)
  show ?thesis
    using a b c handler_journal [of sp _ _ dp batch db "[]"] by (simp (no_asm_simp))
qed

theorem pagination_examples_witness:
  "resolvePagination [(js ''start'', js ''10''), (js ''end'', js ''30'')] = Inr (Num 20, Num 10) \<and>
   resolvePagination [(js ''start'', js ''0''), (js ''size'', js ''20'')] = Inr (Num 20, Num 0) \<and>
   resolvePagination [(js ''deck_name'', js ''hero'')] = Inr (Num 10, Num 0) \<and>
   map params (hd (snd (snd (handleSearchRequest noDates (journaled (answering [] 0))
                              [(js ''start'', js ''10''), (js ''end'', js ''30'')] (0, []))))) =
     [[Number (Num 20), Number (Num 10)], []]"
proof -
  let ?a = "[(js ''start'', js ''10''), (js ''end'', js ''30'')]"
  let ?b = "[(js ''start'', js ''0''), (js ''size'', js ''20'')]"
  let ?c = "[(js ''deck_name'', js ''hero'')]"
  have ga: "get ?a (js ''start'') = Some (js ''10'') \<and> get ?a (js ''end'') = Some (js ''30'')"
    by code_simp
  have gb: "get ?b (js ''start'') = Some (js ''0'') \<and> get ?b (js ''end'') = None
            \<and> get ?b (js ''size'') = Some (js ''20'')"
    by code_simp
  have gc: "get ?c (js ''start'') = None \<and> get ?c (js ''end'') = None \<and> get ?c (js ''size'') = None"
    by code_simp
  note ta = pagination_examples [of ?a noDates "answering [] 0" 0, THEN conjunct1, THEN mp, OF ga]
  note tb = pagination_examples [of ?b noDates "answering [] 0" 0, THEN conjunct2, THEN conjunct1,
                                 THEN mp, OF gb]
  note tc = pagination_examples [of ?c noDates "answering [] 0" 0, THEN conjunct2, THEN conjunct2,
                                 THEN mp, OF gc]
  have pa: "params (buildSearchQuery noDates ?a False
                      \<lparr>limit = Some (Num 20), offset = Some (Num 10),
                         reverse = Some (get ?a (js ''reverse'') = Some (js ''true''))\<rparr>) =
            [Number (Num 20), Number (Num 10)]"
           "params (buildSearchQuery noDates ?a True noOptions) = []"
    by code_simp+
  from ta tb tc pa show ?thesis by simp
qed

subsection \<open>C6: invalid pagination\<close>

text \<open>
  As stated, C6 fails: \<^verbatim>\<open>size\<close> is read only when \<^verbatim>\<open>start\<close> is present (line 149)
  and \<^verbatim>\<open>end\<close> is absent (line 162). The request \<^verbatim>\<open>?size=abc\<close> carries a
  non-numeric size, and the handler answers it with status 200 after one batch call
  compiled with the default limit 10 and offset 0.
\<close>

theorem size_without_start_reaches_storage:
  "get [(js ''size'', js ''abc'')] (js ''size'') = Some (js ''abc'') \<and>
   parseInt (js ''abc'') = NaN \<and>
   handleSearchRequest noDates (journaled (answering [] 0)) [(js ''size'', js ''abc'')] (0, []) =
     (\<lparr>status = 200, payload = DataBody (JNumber (Num 0)) (Num 0) 0 []\<rparr>,
      (Suc 0,
       [[\<lparr>sql = js ''SELECT DISTINCT D.* FROM Decks AS D ORDER BY D.deck_like DESC, D.update_date DESC LIMIT ? OFFSET ?'',
           params = [Number (Num 10), Number (Num 0)]\<rparr>,
         \<lparr>sql = js ''SELECT COUNT(DISTINCT D.deck_id) FROM Decks AS D'', params = []\<rparr>]]))"
  by code_simp

text \<open>
  Claim C6, amended. For every request that carries \<^verbatim>\<open>start\<close>, the handler returns a
  400 response and makes no call to the storage engine (the database is left in the state
  it was in, and a database that keeps a journal gets no entry) when \<^verbatim>\<open>start\<close> is
  negative, when \<^verbatim>\<open>end\<close> is present and less than or equal to \<^verbatim>\<open>start\<close>, or when
  \<^verbatim>\<open>end\<close> is absent and \<^verbatim>\<open>size\<close> is present and not numeric (\<^verbatim>\<open>parseInt\<close>
  reads it as \<^verbatim>\<open>NaN\<close>). The comparisons are those of the code, on the numbers that
  \<^verbatim>\<open>parseInt\<close> reads.
\<close>

theorem invalid_pagination_rejected:
  assumes "get sp (js ''start'') = Some s"
    and "numLess (parseInt s) (Num 0)
         \<or> (get sp (js ''end'') = Some e \<and> numLessEqual (parseInt e) (parseInt s))
         \<or> (get sp (js ''end'') = None \<and> get sp (js ''size'') = Some z \<and> parseInt z = NaN)"
  shows "status (fst (handleSearchRequest dp batch sp db)) = 400 \<and>
         snd (handleSearchRequest dp batch sp db) = db \<and>
         snd (handleSearchRequest dp (journaled batch) sp (db, [])) = (db, [])"
proof -
  from assms have "isl (resolvePagination sp)"
    by (auto simp add: resolvePagination_def Let_def)
  then obtain resp where r: "resolvePagination sp = Inl resp"
    by (cases "resolvePagination sp") auto
  show ?thesis by (simp add: handler_rejects [OF r] pagination_status [OF r])
qed

theorem invalid_pagination_rejected_witness:
  "handleSearchRequest noDates (journaled (answering [] 0)) [(js ''start'', js ''-1'')] (0, []) =
     (\<lparr>status = 400, payload = ErrorBody InvalidStart\<rparr>, (0, [])) \<and>
   handleSearchRequest noDates (journaled (answering [] 0))
     [(js ''start'', js ''9007199254740992''), (js ''end'', js ''9007199254740993'')] (0, []) =
     (\<lparr>status = 400, payload = ErrorBody InvalidEnd\<rparr>, (0, [])) \<and>
   handleSearchRequest noDates (journaled (answering [] 0))
     [(js ''start'', js ''0''), (js ''size'', js ''abc'')] (0, []) =
     (\<lparr>status = 400, payload = ErrorBody InvalidSize\<rparr>, (0, []))"
proof -
  let ?a = "[(js ''start'', js ''-1'')]"
  let ?b = "[(js ''start'', js ''9007199254740992''), (js ''end'', js ''9007199254740993'')]"
  let ?c = "[(js ''start'', js ''0''), (js ''size'', js ''abc'')]"
  let ?h = "handleSearchRequest noDates (journaled (answering [] 0))"
  have a: "get ?a (js ''start'') = Some (js ''-1'')" "numLess (parseInt (js ''-1'')) (Num 0)"
    by code_simp+
  have b: "get ?b (js ''start'') = Some (js ''9007199254740992'')"
          "get ?b (js ''end'') = Some (js ''9007199254740993'')"
          "numLessEqual (parseInt (js ''9007199254740993'')) (parseInt (js ''9007199254740992''))"
    by code_simp+
  have c: "get ?c (js ''start'') = Some (js ''0'')" "get ?c (js ''end'') = None"
          "get ?c (js ''size'') = Some (js ''abc'')" "parseInt (js ''abc'') = NaN"
    by code_simp+
  have 1: "status (fst (handleSearchRequest noDates (answering [] 0) ?a 0)) = 400
           \<and> snd (handleSearchRequest noDates (answering [] 0) ?a 0) = 0
           \<and> snd (?h ?a (0, [])) = (0, [])"
    by (rule invalid_pagination_rejected [OF a(1)]) (simp add: a)
  have 2: "status (fst (handleSearchRequest noDates (answering [] 0) ?b 0)) = 400
           \<and> snd (handleSearchRequest noDates (answering [] 0) ?b 0) = 0
           \<and> snd (?h ?b (0, [])) = (0, [])"
    by (rule invalid_pagination_rejected [OF b(1), of "js ''9007199254740993''"]) (simp add: b)
  have 3: "status (fst (handleSearchRequest noDates (answering [] 0) ?c 0)) = 400
           \<and> snd (handleSearchRequest noDates (answering [] 0) ?c 0) = 0
           \<and> snd (?h ?c (0, [])) = (0, [])"
    by (rule invalid_pagination_rejected [OF c(1), of _ "js ''abc''"]) (simp add: c)
  have e: "fst (?h ?a (0, [])) = \<lparr>status = 400, payload = ErrorBody InvalidStart\<rparr>"
          "fst (?h ?b (0, [])) = \<lparr>status = 400, payload = ErrorBody InvalidEnd\<rparr>"
          "fst (?h ?c (0, [])) = \<lparr>status = 400, payload = ErrorBody InvalidSize\<rparr>"
    by code_simp+
  from 1 2 3 e show ?thesis
    by (simp add: prod_eq_iff)
qed

subsection \<open>C7: the sort order\<close>

text \<open>
  Claim C7. The data statement ends with an ORDER BY clause whose two keys have the same
  direction, ascending when the reversal flag is set and descending otherwise; the
  primary key is the update time when \<^verbatim>\<open>order\<close> is \<^verbatim>\<open>date\<close> and the popularity
  otherwise, and the other of the two is the tie-break. The handler sets the flag exactly
  when \<^verbatim>\<open>reverse\<close> is the text \<^verbatim>\<open>true\<close>. So the data statement it submits orders by
  update time ascending, then popularity ascending, for \<^verbatim>\<open>order=date&reverse=true\<close>,
  and by popularity descending, then update time descending, for the defaults.
\<close>

theorem sort_directions:
  "sql (buildSearchQuery dp sp False opts) =
     dataSelect @ joinsText (applyFilters dp sp) @ whereText (applyFilters dp sp)
       @ (if reverse opts = Some True
          then (if getOr sp (js ''order'') (js ''rate'') = js ''date''
                then (js '' ORDER BY D.update_date ASC, D.deck_like ASC'')
                else (js '' ORDER BY D.deck_like ASC, D.update_date ASC''))
          else (if getOr sp (js ''order'') (js ''rate'') = js ''date''
                then (js '' ORDER BY D.update_date DESC, D.deck_like DESC'')
                else (js '' ORDER BY D.deck_like DESC, D.update_date DESC'')))
       @ js '' LIMIT ? OFFSET ?'' \<and>
   (resolvePagination sp = Inr (lim, off) \<longrightarrow>
      (\<exists>dataQuery countQuery.
         snd (snd (handleSearchRequest dp (journaled batch) sp (db, []))) =
           [[dataQuery, countQuery]] \<and>
         (get sp (js ''order'') = Some (js ''date'') \<and> get sp (js ''reverse'') = Some (js ''true'') \<longrightarrow>
            sql dataQuery =
              dataSelect @ joinsText (applyFilters dp sp) @ whereText (applyFilters dp sp)
                @ js '' ORDER BY D.update_date ASC, D.deck_like ASC'' @ js '' LIMIT ? OFFSET ?'') \<and>
         (getOr sp (js ''order'') (js ''rate'') = js ''rate'' \<and> get sp (js ''reverse'') \<noteq> Some (js ''true'') \<longrightarrow>
            sql dataQuery =
              dataSelect @ joinsText (applyFilters dp sp) @ whereText (applyFilters dp sp)
                @ js '' ORDER BY D.deck_like DESC, D.update_date DESC'' @ js '' LIMIT ? OFFSET ?'') \<and>
         sql dataQuery =
           dataSelect @ joinsText (applyFilters dp sp) @ whereText (applyFilters dp sp)
             @ (if get sp (js ''reverse'') = Some (js ''true'')
                then (if getOr sp (js ''order'') (js ''rate'') = js ''date''
                      then (js '' ORDER BY D.update_date ASC, D.deck_like ASC'')
                      else (js '' ORDER BY D.deck_like ASC, D.update_date ASC''))
                else (if getOr sp (js ''order'') (js ''rate'') = js ''date''
                      then (js '' ORDER BY D.update_date DESC, D.deck_like DESC'')
                      else (js '' ORDER BY D.deck_like DESC, D.update_date DESC'')))
             @ js '' LIMIT ? OFFSET ?''))"
proof (intro conjI impI)
  show "sql (buildSearchQuery dp sp False opts) =
     dataSelect @ joinsText (applyFilters dp sp) @ whereText (applyFilters dp sp)
       @ (if reverse opts = Some True
          then (if getOr sp (js ''order'') (js ''rate'') = js ''date''
                then (js '' ORDER BY D.update_date ASC, D.deck_like ASC'')
                else (js '' ORDER BY D.deck_like ASC, D.update_date ASC''))
          else (if getOr sp (js ''order'') (js ''rate'') = js ''date''
                then (js '' ORDER BY D.update_date DESC, D.deck_like DESC'')
                else (js '' ORDER BY D.deck_like DESC, D.update_date DESC'')))
       @ js '' LIMIT ? OFFSET ?''"
    by (cases "reverse opts") (auto simp add: build_sql orderByClause_cases)
next
  assume p: "resolvePagination sp = Inr (lim, off)"
  let ?r = "get sp (js ''reverse'') = Some (js ''true'')"
  let ?dq = "buildSearchQuery dp sp False
               \<lparr>limit = Some lim, offset = Some off, reverse = Some ?r\<rparr>"
  have s: "sql ?dq = dataSelect @ joinsText (applyFilters dp sp) @ whereText (applyFilters dp sp)
                       @ orderByClause sp ?r @ js '' LIMIT ? OFFSET ?''"
    by (simp add: build_sql)
  have d: "getOr sp (js ''order'') (js ''rate'') = js ''date''" if "get sp (js ''order'') = Some (js ''date'')"
    using that by (simp add: getOr_def js_simps)
  from handler_journal [OF p, of dp batch db "[]"] s d
  show "\<exists>dataQuery countQuery.
         snd (snd (handleSearchRequest dp (journaled batch) sp (db, []))) =
           [[dataQuery, countQuery]] \<and>
         (get sp (js ''order'') = Some (js ''date'') \<and> get sp (js ''reverse'') = Some (js ''true'') \<longrightarrow>
            sql dataQuery =
              dataSelect @ joinsText (applyFilters dp sp) @ whereText (applyFilters dp sp)
                @ js '' ORDER BY D.update_date ASC, D.deck_like ASC'' @ js '' LIMIT ? OFFSET ?'') \<and>
         (getOr sp (js ''order'') (js ''rate'') = js ''rate'' \<and> get sp (js ''reverse'') \<noteq> Some (js ''true'') \<longrightarrow>
            sql dataQuery =
              dataSelect @ joinsText (applyFilters dp sp) @ whereText (applyFilters dp sp)
                @ js '' ORDER BY D.deck_like DESC, D.update_date DESC'' @ js '' LIMIT ? OFFSET ?'') \<and>
         sql dataQuery =
           dataSelect @ joinsText (applyFilters dp sp) @ whereText (applyFilters dp sp)
             @ (if get sp (js ''reverse'') = Some (js ''true'')
                then (if getOr sp (js ''order'') (js ''rate'') = js ''date''
                      then (js '' ORDER BY D.update_date ASC, D.deck_like ASC'')
                      else (js '' ORDER BY D.deck_like ASC, D.update_date ASC''))
                else (if getOr sp (js ''order'') (js ''rate'') = js ''date''
                      then (js '' ORDER BY D.update_date DESC, D.deck_like DESC'')
                      else (js '' ORDER BY D.deck_like DESC, D.update_date DESC'')))
             @ js '' LIMIT ? OFFSET ?''"
    by (auto simp add: orderByClause_cases)
qed

theorem sort_directions_witness:
  "sql (hd (hd (snd (snd (handleSearchRequest noDates (journaled (answering [] 0))
                            [(js ''order'', js ''date''), (js ''reverse'', js ''true'')]
                            (0, [])))))) =
     (js ''SELECT DISTINCT D.* FROM Decks AS D ORDER BY D.update_date ASC, D.deck_like ASC LIMIT ? OFFSET ?'') \<and>
   sql (hd (hd (snd (snd (handleSearchRequest noDates (journaled (answering [] 0))
                            [(js ''deck_name'', js ''hero'')] (0, [])))))) =
     (js ''SELECT DISTINCT D.* FROM Decks AS D WHERE D.deck_name LIKE ? ORDER BY D.deck_like DESC, D.update_date DESC LIMIT ? OFFSET ?'')"
proof -
  let ?a = "[(js ''order'', js ''date''), (js ''reverse'', js ''true'')]"
  let ?b = "[(js ''deck_name'', js ''hero'')]"
  have pa: "resolvePagination ?a = Inr (Num 10, Num 0)"
    and pb: "resolvePagination ?b = Inr (Num 10, Num 0)"
    by code_simp+
  have ga: "get ?a (js ''order'') = Some (js ''date'') \<and> get ?a (js ''reverse'') = Some (js ''true'')"
    by code_simp
  have gb: "getOr ?b (js ''order'') (js ''rate'') = js ''rate'' \<and> get ?b (js ''reverse'') \<noteq> Some (js ''true'')"
    by code_simp
  have ta: "joinsText (applyFilters noDates ?a) = []" "whereText (applyFilters noDates ?a) = []"
    by code_simp+
  have tb: "joinsText (applyFilters noDates ?b) = []"
           "whereText (applyFilters noDates ?b) = js '' WHERE D.deck_name LIKE ?''"
    by code_simp+
  from sort_directions [of noDates ?a noOptions "Num 10" "Num 0" "answering [] 0" 0,
                        THEN conjunct2, THEN mp, OF pa]
       ga ta
  have a: "sql (hd (hd (snd (snd (handleSearchRequest noDates (journaled (answering [] 0)) ?a
                                   (0, [])))))) =
     (js ''SELECT DISTINCT D.* FROM Decks AS D ORDER BY D.update_date ASC, D.deck_like ASC LIMIT ? OFFSET ?'')"
    by (auto simp add: dataSelect_def js_append)
  from sort_directions [of noDates ?b noOptions "Num 10" "Num 0" "answering [] 0" 0,
                        THEN conjunct2, THEN mp, OF pb]
       gb tb
  have b: "sql (hd (hd (snd (snd (handleSearchRequest noDates (journaled (answering [] 0)) ?b
                                   (0, [])))))) =
     (js ''SELECT DISTINCT D.* FROM Decks AS D WHERE D.deck_name LIKE ? ORDER BY D.deck_like DESC, D.update_date DESC LIMIT ? OFFSET ?'')"
    by (auto simp add: dataSelect_def js_append)
  from a b show ?thesis by (intro conjI)
qed

subsection \<open>C8: the size and start fields of the response\<close>

text \<open>
  Claim C8. In every successful response the \<^verbatim>\<open>size\<close> field is the length of
  \<^verbatim>\<open>list\<close>, \<^verbatim>\<open>list\<close> holds the rows of the data result of the batch (no row when
  the result has none), and \<^verbatim>\<open>start\<close> is the resolved offset. The size is the number
  of rows the database returned, whatever the resolved limit was: the example after the
  theorem asks for 50 rows and the response has size 5.
\<close>

theorem response_size_is_row_count:
  assumes "handleSearchRequest dp batch sp db = (resp, db')"
    and "payload resp = DataBody tot st sz rows"
  shows "sz = length rows \<and>
         (\<exists>lim dataResult countResult.
            resolvePagination sp = Inr (lim, st) \<and>
            batch [buildSearchQuery dp sp False
                     \<lparr>limit = Some lim, offset = Some st,
                        reverse = Some (get sp (js ''reverse'') = Some (js ''true''))\<rparr>,
                   buildSearchQuery dp sp True noOptions] db =
              (Resolves dataResult countResult, db') \<and>
            rows = (case results dataResult of None \<Rightarrow> [] | Some rs \<Rightarrow> rs))"
proof (cases "resolvePagination sp")
  case (Inl r)
  from pagination_error_body [OF Inl] handler_rejects [OF Inl, of dp batch db] assms
  show ?thesis by auto
next
  case (Inr p)
  obtain lim off where p: "p = (lim, off)" by (cases p)
  with Inr assms show ?thesis
    by (auto simp add: handleSearchRequest_def Let_def JsonResponse_def
             split: prod.splits batchOutcome.splits sum.splits if_splits option.splits)
qed

theorem response_size_is_row_count_witness:
  "handleSearchRequest noDates (answering fiveRows 5)
     [(js ''start'', js ''0''), (js ''size'', js ''50'')] 0 =
     (\<lparr>status = 200, payload = DataBody (JNumber (Num 5)) (Num 0) 5 fiveRows\<rparr>, Suc 0) \<and>
   (5::nat) = length fiveRows \<and>
   resolvePagination [(js ''start'', js ''0''), (js ''size'', js ''50'')] = Inr (Num 50, Num 0) \<and>
   answering fiveRows 5
     [buildSearchQuery noDates [(js ''start'', js ''0''), (js ''size'', js ''50'')] False
        \<lparr>limit = Some (Num 50), offset = Some (Num 0), reverse = Some False\<rparr>,
      buildSearchQuery noDates [(js ''start'', js ''0''), (js ''size'', js ''50'')] True noOptions]
     0 =
     (Resolves \<lparr>success = True, results = Some fiveRows\<rparr>
               \<lparr>success = True,
                  results = Some [[(js ''COUNT(DISTINCT D.deck_id)'', JNumber (Num 5))]]\<rparr>,
      Suc 0)"
proof -
  have h: "handleSearchRequest noDates (answering fiveRows 5)
             [(js ''start'', js ''0''), (js ''size'', js ''50'')] 0 =
     (\<lparr>status = 200, payload = DataBody (JNumber (Num 5)) (Num 0) 5 fiveRows\<rparr>, Suc 0)"
    by code_simp
  have r: "resolvePagination [(js ''start'', js ''0''), (js ''size'', js ''50'')] =
             Inr (Num 50, Num 0)"
    by code_simp
  from response_size_is_row_count [OF h] r show ?thesis
    using h by (simp add: answering_def)
qed

subsection \<open>C9: one batch call\<close>

text \<open>
  Claim C9. On every request that passes the pagination checks the handler makes exactly
  one call to the storage engine: one \<^verbatim>\<open>batch\<close> that carries the data statement and
  the count statement together, in this order. The database goes through the one
  transition of that call, from the state the handler found; a database that keeps a
  journal of the calls it receives gets exactly one more entry, which holds both
  statements, and keeping the journal does not change the response. The response is
  computed from the outcome of that one call alone: two engines that give the same
  outcome for this batch, each in its own state, get the same response. So the rows and
  the total of a response come from one transition of the database, from one state.
\<close>

theorem single_batch_call:
  assumes "resolvePagination sp = Inr (lim, off)"
  shows "snd (handleSearchRequest dp batch sp db) =
           snd (batch
                  [buildSearchQuery dp sp False
                     \<lparr>limit = Some lim, offset = Some off,
                        reverse = Some (get sp (js ''reverse'') = Some (js ''true''))\<rparr>,
                   buildSearchQuery dp sp True noOptions] db) \<and>
         snd (handleSearchRequest dp (journaled batch) sp (db, journal)) =
           (snd (batch
                   [buildSearchQuery dp sp False
                      \<lparr>limit = Some lim, offset = Some off,
                         reverse = Some (get sp (js ''reverse'') = Some (js ''true''))\<rparr>,
                    buildSearchQuery dp sp True noOptions] db),
            journal @
            [[buildSearchQuery dp sp False
                \<lparr>limit = Some lim, offset = Some off,
                   reverse = Some (get sp (js ''reverse'') = Some (js ''true''))\<rparr>,
              buildSearchQuery dp sp True noOptions]]) \<and>
         fst (handleSearchRequest dp (journaled batch) sp (db, journal)) =
           fst (handleSearchRequest dp batch sp db) \<and>
         (fst (batch
                 [buildSearchQuery dp sp False
                    \<lparr>limit = Some lim, offset = Some off,
                       reverse = Some (get sp (js ''reverse'') = Some (js ''true''))\<rparr>,
                  buildSearchQuery dp sp True noOptions] db) =
          fst (batch'
                 [buildSearchQuery dp sp False
                    \<lparr>limit = Some lim, offset = Some off,
                       reverse = Some (get sp (js ''reverse'') = Some (js ''true''))\<rparr>,
                  buildSearchQuery dp sp True noOptions] db') \<longrightarrow>
          fst (handleSearchRequest dp batch sp db) = fst (handleSearchRequest dp batch' sp db'))"
proof (intro conjI impI)
  let ?qs = "[buildSearchQuery dp sp False
                \<lparr>limit = Some lim, offset = Some off,
                   reverse = Some (get sp (js ''reverse'') = Some (js ''true''))\<rparr>,
              buildSearchQuery dp sp True noOptions]"
  show "snd (handleSearchRequest dp batch sp db) = snd (batch ?qs db)"
    by (rule handler_applies_batch [OF assms])
  have "snd (handleSearchRequest dp (journaled batch) sp (db, journal)) =
          snd (journaled batch ?qs (db, journal))"
    by (rule handler_applies_batch [OF assms])
  then show "snd (handleSearchRequest dp (journaled batch) sp (db, journal)) =
               (snd (batch ?qs db), journal @ [?qs])"
    by (simp add: journaled_def split: prod.splits)
  show "fst (handleSearchRequest dp (journaled batch) sp (db, journal)) =
          fst (handleSearchRequest dp batch sp db)"
    by (rule journaled_response)
next
  let ?qs = "[buildSearchQuery dp sp False
                \<lparr>limit = Some lim, offset = Some off,
                   reverse = Some (get sp (js ''reverse'') = Some (js ''true''))\<rparr>,
              buildSearchQuery dp sp True noOptions]"
  assume "fst (batch ?qs db) = fst (batch' ?qs db')"
  with assms show "fst (handleSearchRequest dp batch sp db) =
                   fst (handleSearchRequest dp batch' sp db')"
    by (auto simp add: handleSearchRequest_def Let_def
             split: prod.splits batchOutcome.splits sum.splits)
qed

theorem single_batch_call_witness:
  "snd (handleSearchRequest noDates (answering fiveRows 5) [(js ''race'', js ''dragon'')] 0) =
     Suc 0 \<and>
   snd (handleSearchRequest noDates (journaled (answering fiveRows 5))
          [(js ''race'', js ''dragon'')] (0, [])) =
     (Suc 0,
      [[buildSearchQuery noDates [(js ''race'', js ''dragon'')] False
          \<lparr>limit = Some (Num 10), offset = Some (Num 0), reverse = Some False\<rparr>,
        buildSearchQuery noDates [(js ''race'', js ''dragon'')] True noOptions]]) \<and>
   fst (handleSearchRequest noDates (journaled (answering fiveRows 5))
          [(js ''race'', js ''dragon'')] (0, [])) =
     fst (handleSearchRequest noDates (answering fiveRows 5) [(js ''race'', js ''dragon'')] 0) \<and>
   fst (handleSearchRequest noDates (answering fiveRows 5) [(js ''race'', js ''dragon'')] 0) =
     fst (handleSearchRequest noDates (answering fiveRows 5) [(js ''race'', js ''dragon'')] 7)"
proof -
  have p: "resolvePagination [(js ''race'', js ''dragon'')] = Inr (Num 10, Num 0)"
    by code_simp
  have g: "(get [(js ''race'', js ''dragon'')] (js ''reverse'') = Some (js ''true'')) = False"
    by code_simp
  from single_batch_call [OF p, of noDates "answering fiveRows 5" 0 "[]" "answering fiveRows 5" 7]
       g
  show ?thesis
    by (simp add: answering_def)
qed

subsection \<open>C10: no start parameter\<close>

text \<open>
  Claim C10. When \<^verbatim>\<open>start\<close> is absent, \<^verbatim>\<open>end\<close> and \<^verbatim>\<open>size\<close> are not read: the
  limit is 10 and the offset 0 whatever they hold, the response is not a 400, and the
  handler makes its batch call with the statements compiled for limit 10 and offset 0.
\<close>

theorem absent_start_ignores_end_and_size:
  assumes "get sp (js ''start'') = None"
  shows "resolvePagination sp = Inr (Num 10, Num 0) \<and>
         status (fst (handleSearchRequest dp batch sp db)) \<noteq> 400 \<and>
         snd (snd (handleSearchRequest dp (journaled batch) sp (db, []))) =
           [[buildSearchQuery dp sp False
               \<lparr>limit = Some (Num 10), offset = Some (Num 0),
                  reverse = Some (get sp (js ''reverse'') = Some (js ''true''))\<rparr>,
             buildSearchQuery dp sp True noOptions]]"
proof -
  from assms have p: "resolvePagination sp = Inr (Num 10, Num 0)"
    by (simp add: resolvePagination_def)
  from handler_status [OF p, of dp batch db]
  have "status (fst (handleSearchRequest dp batch sp db)) \<noteq> 400" by auto
  with p handler_journal [OF p, of dp batch db "[]"] show ?thesis by simp
qed

theorem absent_start_ignores_end_and_size_witness:
  "resolvePagination [(js ''end'', js ''soon''), (js ''size'', js ''0'')] = Inr (Num 10, Num 0) \<and>
   status (fst (handleSearchRequest noDates (answering [] 0)
                  [(js ''end'', js ''soon''), (js ''size'', js ''0'')] 0)) \<noteq> 400 \<and>
   length (snd (snd (handleSearchRequest noDates (journaled (answering [] 0))
                       [(js ''end'', js ''soon''), (js ''size'', js ''0'')] (0, [])))) = 1"
proof -
  have g: "get [(js ''end'', js ''soon''), (js ''size'', js ''0'')] (js ''start'') = None"
    by code_simp
  from absent_start_ignores_end_and_size [OF g, of noDates "answering [] 0" 0]
  show ?thesis by simp
qed

end
